theory Spec2Isabelle
  imports Complex_Main "HOL-Library.AList"
begin

section \<open>Python values, exceptions and results\<close>

text \<open>
  The client of \<^verbatim>\<open>cloud_client.py\<close> handles dynamically typed data: parsed JSON
  responses, the serialised workflow, byte blobs. \<open>pyval\<close> is the type of these values.
  A dict is an association list with string keys (the order of insertion is kept, a key
  is looked up with \<open>map_of\<close>). A float is represented by the rational number its
  literal denotes; floats are only compared and passed on here, arithmetic on them is
  left to the runtime parameter below.
\<close>

datatype pyval =
    PNone
  | PBool bool
  | PInt int
  | PFloat rat
  | PStr string
  | PBytes "nat list"
  | PList "pyval list"
  | PDict "(string \<times> pyval) list"

type_synonym dict = "(string \<times> pyval) list"

text \<open>\<open>NetworkError\<close> of the network module: the fields this file reads.\<close>

record network_error =
  status :: "int option"
  message :: string
  data :: pyval

datatype exception =
    KeyError string
  | TypeError
  | AttributeError
  | ValueError string
  | AssertionError
  | JSONDecodeError
  | OverflowError
  | TimeoutError string
  | RuntimeError string
  | NetworkError network_error

text \<open>
  An awaited call returns a value, raises, or never resumes (\<open>Pending\<close>: the scripted
  environment below has no further reply).
\<close>

datatype 'a result = Return 'a | Raise exception | Pending

text \<open>Truth value testing: \<^verbatim>\<open>if x:\<close>.\<close>

fun truthy :: "pyval \<Rightarrow> bool" where
  "truthy PNone = False"
| "truthy (PBool b) = b"
| "truthy (PInt i) = (i \<noteq> 0)"
| "truthy (PFloat r) = (r \<noteq> 0)"
| "truthy (PStr s) = (s \<noteq> [])"
| "truthy (PBytes bs) = (bs \<noteq> [])"
| "truthy (PList xs) = (xs \<noteq> [])"
| "truthy (PDict d) = (d \<noteq> [])"

text \<open>\<^verbatim>\<open>v[k]\<close> with a string key: only a dict can be subscripted with a string.\<close>

fun subscript :: "pyval \<Rightarrow> string \<Rightarrow> exception + pyval" where
  "subscript (PDict d) k = (case map_of d k of None \<Rightarrow> Inl (KeyError k) | Some v \<Rightarrow> Inr v)"
| "subscript _ k = Inl TypeError"

text \<open>\<^verbatim>\<open>v.get(k, default)\<close>: only a dict has the method.\<close>

fun py_get :: "pyval \<Rightarrow> string \<Rightarrow> pyval \<Rightarrow> exception + pyval" where
  "py_get (PDict d) k dflt = (case map_of d k of None \<Rightarrow> Inr dflt | Some v \<Rightarrow> Inr v)"
| "py_get _ k dflt = Inl AttributeError"

text \<open>\<^verbatim>\<open>len(v)\<close>.\<close>

fun py_len :: "pyval \<Rightarrow> exception + nat" where
  "py_len (PStr s) = Inr (length s)"
| "py_len (PBytes bs) = Inr (length bs)"
| "py_len (PList xs) = Inr (length xs)"
| "py_len (PDict d) = Inr (length d)"
| "py_len _ = Inl TypeError"

text \<open>\<^verbatim>\<open>str(i)\<close> of an integer: its decimal digits.\<close>

fun str_nat :: "nat \<Rightarrow> string" where
  "str_nat n =
     (if n < 10 then [''0123456789'' ! n]
      else str_nat (n div 10) @ [''0123456789'' ! (n mod 10)])"

definition str_int :: "int \<Rightarrow> string" where
  "str_int i = (if i < 0 then CHR ''-'' # str_nat (nat (- i)) else str_nat (nat i))"

section \<open>What the file takes from outside\<close>

text \<open>
  \<open>WorkflowInput\<close> and \<open>CheckpointInput\<close> of the api module: the fields this file
  reads or writes. The serialisation \<^verbatim>\<open>to_dict\<close> is a parameter.
\<close>

record checkpoint_input =
  self_attention_guidance :: bool

record workflow_input =
  batch_count :: int
  models :: "checkpoint_input option"

text \<open>
  Functions of the Python library and of the repository's other modules that this file
  calls, taken as parameters: \<^verbatim>\<open>WorkflowInput.to_dict\<close>,
  \<^verbatim>\<open>ImageCollection.from_bytes\<close> and \<^verbatim>\<open>from_base64\<close> (the type \<open>'i\<close> is
  \<open>ImageCollection\<close>), \<^verbatim>\<open>b64encode(..).decode("utf-8")\<close>, \<^verbatim>\<open>json.loads\<close>,
  \<^verbatim>\<open>str\<close> on a float, bytes, list or dict (\<open>repr_text\<close>), \<^verbatim>\<open>str\<close> on an
  exception raised by the interpreter (\<open>exc_text\<close>), and subtraction where an
  operand is not an integer (\<open>arith_sub\<close>).
\<close>

record 'i runtime =
  to_dict :: "workflow_input \<Rightarrow> dict"
  from_bytes :: "pyval \<Rightarrow> pyval \<Rightarrow> exception + 'i"
  from_base64 :: "pyval \<Rightarrow> pyval \<Rightarrow> exception + 'i"
  b64encode :: "pyval \<Rightarrow> exception + string"
  json_loads :: "pyval \<Rightarrow> exception + pyval"
  repr_text :: "pyval \<Rightarrow> string"
  exc_text :: "exception \<Rightarrow> string"
  arith_sub :: "pyval \<Rightarrow> pyval \<Rightarrow> exception + pyval"

text \<open>\<^verbatim>\<open>str(v)\<close>, as f-strings apply it.\<close>

definition py_str :: "'i runtime \<Rightarrow> pyval \<Rightarrow> string" where
  "py_str rt v =
     (case v of
        PStr s \<Rightarrow> s
      | PInt i \<Rightarrow> str_int i
      | PBool b \<Rightarrow> (if b then ''True'' else ''False'')
      | PNone \<Rightarrow> ''None''
      | _ \<Rightarrow> repr_text rt v)"

text \<open>\<^verbatim>\<open>a - b\<close>: exact on integers (a bool counts as 0 or 1).\<close>

fun as_int :: "pyval \<Rightarrow> int option" where
  "as_int (PInt i) = Some i"
| "as_int (PBool b) = Some (if b then 1 else 0)"
| "as_int _ = None"

definition py_sub :: "'i runtime \<Rightarrow> pyval \<Rightarrow> pyval \<Rightarrow> exception + pyval" where
  "py_sub rt a b =
     (case (as_int a, as_int b) of
        (Some x, Some y) \<Rightarrow> Inr (PInt (x - y))
      | _ \<Rightarrow> arith_sub rt a b)"

text \<open>\<^verbatim>\<open>max(0, d)\<close>: \<open>d\<close> when \<open>d > 0\<close>, else the integer 0.\<close>

fun max0 :: "pyval \<Rightarrow> exception + pyval" where
  "max0 (PInt x) = Inr (PInt (max 0 x))"
| "max0 (PBool b) = Inr (if b then PBool True else PInt 0)"
| "max0 (PFloat r) = Inr (if 0 < r then PFloat r else PInt 0)"
| "max0 _ = Inl TypeError"

section \<open>Settings\<close>

text \<open>
  The settings object and \<open>PerformanceSettings\<close> of the settings module: the three
  fields the property reads and sets.
\<close>

record performance =
  batch_size :: int
  resolution_multiplier :: rat
  max_pixel_count :: int

definition performance_settings :: "performance \<Rightarrow> performance" where
  "performance_settings settings =
     \<lparr> batch_size = min 4 (max 8 (batch_size settings)),
       resolution_multiplier = resolution_multiplier settings,
       max_pixel_count = min 8 (max_pixel_count settings) \<rparr>"

section \<open>Jobs, users, events\<close>

text \<open>\<open>JobInfo\<close>; \<open>remote_id\<close> and \<open>worker_id\<close> are \<open>None\<close> until the service answers.\<close>

record job_info =
  local_id :: string
  work :: workflow_input
  remote_id :: pyval
  worker_id :: pyval

text \<open>\<open>User\<close> of the client module; the fields hold what the server sent.\<close>

record user =
  user_id :: pyval
  user_name :: pyval
  images_generated :: pyval
  credits :: pyval

datatype client_event =
    ClientEvent_connected
  | ClientEvent_queued
  | ClientEvent_progress
  | ClientEvent_finished
  | ClientEvent_interrupted
  | ClientEvent_error

text \<open>
  \<open>ClientMessage\<close> of the client module, a named tuple. \<open>ClientMessage ev jid\<close> is the
  call with the two positional arguments, the other fields at their defaults
  (progress 0, the rest \<open>None\<close>); a call with more arguments updates those fields.
\<close>

record 'i client_message =
  event :: client_event
  job_id :: string
  progress :: pyval
  images :: "'i option"
  result :: pyval
  error :: pyval

definition ClientMessage :: "client_event \<Rightarrow> string \<Rightarrow> 'i client_message" where
  "ClientMessage ev jid =
     \<lparr> event = ev, job_id = jid, progress = PInt 0, images = None,
       result = PNone, error = PNone \<rparr>"

section \<open>The client's state and the transport\<close>

text \<open>
  The service is a script: each request takes the next reply, a parsed response or a
  \<open>NetworkError\<close>. Every request and every sleep is appended to the trace, every
  yielded message to \<open>emitted\<close>. Cancellation of the task from outside is not part of
  the script.
\<close>

datatype reply = Reply pyval | Fail network_error

datatype action =
    Get string string
  | Post string pyval string
  | Put pyval pyval
  | Download pyval
  | Sleep rat

record 'i world =
  url :: string
  token :: string
  user :: "user option"
  current_job :: "job_info option"
  script :: "reply list"
  trace :: "action list"
  emitted :: "'i client_message list"

definition request :: "action \<Rightarrow> 'i world \<Rightarrow> pyval result \<times> 'i world" where
  "request a w =
     (case script w of
        [] \<Rightarrow> (Pending, w\<lparr>trace := trace w @ [a]\<rparr>)
      | Reply v # rs \<Rightarrow> (Return v, w\<lparr>script := rs, trace := trace w @ [a]\<rparr>)
      | Fail e # rs \<Rightarrow> (Raise (NetworkError e), w\<lparr>script := rs, trace := trace w @ [a]\<rparr>))"

definition get :: "string \<Rightarrow> 'i world \<Rightarrow> pyval result \<times> 'i world" where
  "get op w = request (Get (url w @ ''/'' @ op) (token w)) w"

definition post :: "string \<Rightarrow> pyval \<Rightarrow> 'i world \<Rightarrow> pyval result \<times> 'i world" where
  "post op body w = request (Post (url w @ ''/'' @ op) body (token w)) w"

definition put :: "pyval \<Rightarrow> pyval \<Rightarrow> 'i world \<Rightarrow> pyval result \<times> 'i world" where
  "put target body w = request (Put target body) w"

definition download :: "pyval \<Rightarrow> 'i world \<Rightarrow> pyval result \<times> 'i world" where
  "download target w = request (Download target) w"

definition sleep :: "rat \<Rightarrow> 'i world \<Rightarrow> 'i world" where
  "sleep d w = w\<lparr>trace := trace w @ [Sleep d]\<rparr>"

definition yield :: "'i client_message \<Rightarrow> 'i world \<Rightarrow> unit result \<times> 'i world" where
  "yield m w = (Return (), w\<lparr>emitted := emitted w @ [m]\<rparr>)"

text \<open>Sequencing: the second step runs when the first returns a value.\<close>

definition andthen ::
  "('s \<Rightarrow> 'a result \<times> 's) \<Rightarrow> ('a \<Rightarrow> 's \<Rightarrow> 'b result \<times> 's) \<Rightarrow> 's \<Rightarrow> 'b result \<times> 's" where
  "andthen m f s =
     (case m s of
        (Return a, s') \<Rightarrow> f a s'
      | (Raise e, s') \<Rightarrow> (Raise e, s')
      | (Pending, s') \<Rightarrow> (Pending, s'))"

definition ret :: "'a \<Rightarrow> 's \<Rightarrow> 'a result \<times> 's" where
  "ret a s = (Return a, s)"

definition raise :: "exception \<Rightarrow> 's \<Rightarrow> 'a result \<times> 's" where
  "raise e s = (Raise e, s)"

definition lift :: "exception + 'a \<Rightarrow> 's \<Rightarrow> 'a result \<times> 's" where
  "lift x s = (case x of Inl e \<Rightarrow> (Raise e, s) | Inr a \<Rightarrow> (Return a, s))"

definition ethen :: "exception + 'a \<Rightarrow> ('a \<Rightarrow> exception + 'b) \<Rightarrow> exception + 'b" where
  "ethen x f = (case x of Inl e \<Rightarrow> Inl e | Inr a \<Rightarrow> f a)"

section \<open>Payload transfer\<close>

text \<open>
  \<^verbatim>\<open>math.ceil(size / 3) * 4\<close>. The division is a float division in Python; it is
  exact enough for the ceiling to be the exact one for every size below \<open>2^52\<close>, and
  beyond that the result stays far above the threshold it is compared with.
\<close>

definition base64_size :: "nat \<Rightarrow> int" where
  "base64_size sz = \<lceil>(of_nat sz :: rat) / 3\<rceil> * 4"

definition upload_to_s3 :: "pyval \<Rightarrow> 'i world \<Rightarrow> pyval result \<times> 'i world" where
  "upload_to_s3 blob =
     andthen (get ''upload'') (\<lambda>upload_info.
     andthen (lift (subscript upload_info ''url'')) (\<lambda>target.
     andthen (put target blob) (\<lambda>_.
     lift (subscript upload_info ''object''))))"

definition send_images :: "'i runtime \<Rightarrow> dict \<Rightarrow> 'i world \<Rightarrow> dict result \<times> 'i world" where
  "send_images rt inputs =
     (case map_of inputs ''image_data'' of
        None \<Rightarrow> ret inputs
      | Some image_data \<Rightarrow>
          if truthy image_data then
            andthen (lift (subscript image_data ''bytes'')) (\<lambda>blob.
            andthen (lift (subscript image_data ''offsets'')) (\<lambda>offsets.
            andthen (lift (py_len blob)) (\<lambda>sz.
              if base64_size sz < 3500000 then
                andthen (lift (b64encode rt blob)) (\<lambda>encoded.
                  ret (AList.update ''image_data''
                         (PDict [(''base64'', PStr encoded), (''offsets'', offsets)]) inputs))
              else
                andthen (upload_to_s3 blob) (\<lambda>s3_object.
                  ret (AList.update ''image_data''
                         (PDict [(''s3_object'', s3_object), (''offsets'', offsets)]) inputs)))))
          else ret inputs)"

text \<open>\<^verbatim>\<open>isinstance(offsets, list) and len(offsets) > 0\<close>.\<close>

fun nonempty_list :: "pyval \<Rightarrow> bool" where
  "nonempty_list (PList xs) = (0 < length xs)"
| "nonempty_list _ = False"

definition receive_images :: "'i runtime \<Rightarrow> pyval \<Rightarrow> 'i world \<Rightarrow> 'i result \<times> 'i world" where
  "receive_images rt imgs =
     andthen (lift (py_get imgs ''offsets'' PNone)) (\<lambda>offsets.
       if \<not> nonempty_list offsets then
         raise (ValueError (''Could not read result images, invalid offsets: '' @ py_str rt offsets))
       else
         andthen (lift (py_get imgs ''url'' PNone)) (\<lambda>target.
           if truthy target then
             andthen (download target) (\<lambda>bytes. lift (from_bytes rt bytes offsets))
           else
             andthen (lift (py_get imgs ''base64'' PNone)) (\<lambda>b64.
               if truthy b64 then lift (from_base64 rt b64 offsets)
               else
                 raise (ValueError (''No result images found in server response: ''
                                      @ take 80 (py_str rt imgs))))))"

section \<open>Errors and the user's quota\<close>

text \<open>
  \<^verbatim>\<open>_process_http_error\<close>. The bare \<^verbatim>\<open>except\<close> swallows a failing subscript; the
  assignment to \<^verbatim>\<open>self.user.credits\<close> made before it stays.
\<close>

definition process_http_error :: "'i runtime \<Rightarrow> network_error \<Rightarrow> 'i world \<Rightarrow> string \<times> 'i world" where
  "process_http_error rt e w =
     (if status e = Some 402 \<and> truthy (data e) then
        (case user w of
           None \<Rightarrow> (message e, w)
         | Some u \<Rightarrow>
             (case subscript (data e) ''credits'' of
                Inl _ \<Rightarrow> (message e, w)
              | Inr c \<Rightarrow>
                  let w' = w\<lparr>user := Some (u\<lparr>credits := c\<rparr>)\<rparr> in
                  (case subscript (data e) ''cost'' of
                     Inl _ \<Rightarrow> (message e, w')
                   | Inr cost \<Rightarrow>
                       (''Insufficient funds - generation would cost '' @ py_str rt cost
                          @ '' tokens. Remaining tokens: '' @ py_str rt c, w'))))
      else (message e, w))"

text \<open>
  \<^verbatim>\<open>_extract_error\<close>. The default of \<^verbatim>\<open>response.get\<close> is the text
  \<^verbatim>\<open>"Job <id> failed (unknown error)"\<close> with its double quotes. Whatever is raised
  between \<^verbatim>\<open>try\<close> and \<^verbatim>\<open>except Exception\<close> selects the fallback.
\<close>

definition extract_error :: "'i runtime \<Rightarrow> pyval \<Rightarrow> pyval \<Rightarrow> exception + (pyval \<times> pyval)" where
  "extract_error rt response jid =
     ethen (py_get response ''error''
              (PStr (CHR 0x22 # ''Job '' @ py_str rt jid @ '' failed (unknown error)'' @ [CHR 0x22])))
       (\<lambda>err.
          case ethen (json_loads rt err) (\<lambda>error_args.
               ethen (py_get error_args ''error_message'' error_args) (\<lambda>err_msg.
               ethen (py_get error_args ''error_traceback'' (PStr ''No traceback'')) (\<lambda>err_trace.
               Inr (err_msg, err_trace))))
          of Inr r \<Rightarrow> Inr r
           | Inl _ \<Rightarrow> Inr (PStr (py_str rt err), PStr ''No traceback''))"

text \<open>
  \<^verbatim>\<open>_update_user\<close> returns the cost; the user object is changed only after every
  subscript has succeeded.
\<close>

definition update_user :: "'i runtime \<Rightarrow> user \<Rightarrow> pyval \<Rightarrow> exception + (pyval \<times> user)" where
  "update_user rt u response =
     (if truthy response then
        ethen (subscript response ''credits'') (\<lambda>c.
        ethen (py_sub rt (credits u) c) (\<lambda>d.
        ethen (max0 d) (\<lambda>cost.
        ethen (subscript response ''images_generated'') (\<lambda>g.
        Inr (cost, u\<lparr>images_generated := g, credits := c\<rparr>)))))
      else Inr (PInt 0, u))"

section \<open>The job queue\<close>

text \<open>
  The \<^verbatim>\<open>asyncio.Queue\<close> is the list of the jobs not yet taken, oldest first; only
  \<open>enqueue\<close>, \<open>listen\<close> and \<open>clear_queue\<close> touch it. \<^verbatim>\<open>str(uuid.uuid4())\<close> draws
  from outside: \<open>uuid4 k\<close> is the text of the draw number \<open>k\<close> of the process, and
  the state counts the draws made so far, so that every call takes the next one.
\<close>

record queue_state =
  drawn :: nat
  queue :: "job_info list"

definition enqueue ::
  "(nat \<Rightarrow> string) \<Rightarrow> workflow_input \<Rightarrow> bool \<Rightarrow> queue_state \<Rightarrow> string \<times> queue_state" where
  "enqueue uuid4 work0 front s =
     (let work1 = work0\<lparr>batch_count := min (batch_count work0) 8\<rparr>;
          work2 = (case models work1 of
                     None \<Rightarrow> work1
                   | Some m \<Rightarrow> work1\<lparr>models := Some (m\<lparr>self_attention_guidance := False\<rparr>)\<rparr>);
          job = \<lparr> local_id = uuid4 (drawn s), work = work2, remote_id = PNone, worker_id = PNone \<rparr>
      in (local_id job, s\<lparr>drawn := Suc (drawn s), queue := queue s @ [job]\<rparr>))"

definition clear_queue :: "queue_state \<Rightarrow> queue_state" where
  "clear_queue s = s\<lparr>queue := []\<rparr>"

section \<open>The job lifecycle\<close>

definition poll_interval :: rat where
  "poll_interval = 5 / 10"

text \<open>The body of the poll loop after the status request: the message it yields, if any.\<close>

definition poll_event ::
  "job_info \<Rightarrow> pyval \<Rightarrow> exception + 'i client_message list" where
  "poll_event job response =
     ethen (subscript response ''status'') (\<lambda>st.
       if st = PStr ''IN_QUEUE'' then Inr [ClientMessage ClientEvent_queued (local_id job)]
       else if st = PStr ''IN_PROGRESS'' then
         ethen (py_get response ''output'' PNone) (\<lambda>output.
           if truthy output then
             ethen (py_get output ''progress'' (PFloat (9 / 100))) (\<lambda>p.
               Inr [(ClientMessage ClientEvent_progress (local_id job))\<lparr>progress := p\<rparr>])
           else Inr [(ClientMessage ClientEvent_progress (local_id job))\<lparr>progress := PFloat (9 / 100)\<rparr>])
       else Inr [])"

definition yield_all :: "'i client_message list \<Rightarrow> 'i world \<Rightarrow> 'i world" where
  "yield_all ms w = w\<lparr>emitted := emitted w @ ms\<rparr>"

lemma script_request:
  "request a w = (r, w') \<Longrightarrow> r \<noteq> Pending \<Longrightarrow> length (script w') < length (script w)"
  by (auto simp: request_def split: list.splits reply.splits)

lemma script_post:
  "post op body w = (Return v, w') \<Longrightarrow> length (script w') < length (script w)"
  unfolding post_def by (drule script_request) simp_all

text \<open>
  The \<^verbatim>\<open>while\<close> loop of \<^verbatim>\<open>_process_job\<close>; it returns the response it ends on.
\<close>

function poll_loop ::
  "'i runtime \<Rightarrow> job_info \<Rightarrow> pyval \<Rightarrow> 'i world \<Rightarrow> pyval result \<times> 'i world" where
  "poll_loop rt job response w =
     (case subscript response ''status'' of
        Inl e \<Rightarrow> (Raise e, w)
      | Inr st \<Rightarrow>
          if st = PStr ''IN_QUEUE'' \<or> st = PStr ''IN_PROGRESS'' then
            (case post (''status/'' @ py_str rt (worker_id job) @ ''/'' @ py_str rt (remote_id job))
                    (PDict []) w of
               (Return response', w1) \<Rightarrow>
                 (case poll_event job response' of
                    Inl e \<Rightarrow> (Raise e, w1)
                  | Inr ms \<Rightarrow> poll_loop rt job response' (sleep poll_interval (yield_all ms w1)))
             | (Raise e, w1) \<Rightarrow> (Raise e, w1)
             | (Pending, w1) \<Rightarrow> (Pending, w1))
          else (Return response, w))"
  by pat_completeness auto
termination
  by (relation "measure (\<lambda>(rt, job, response, w). length (script w))")
     (auto simp: sleep_def yield_all_def dest: script_post [OF sym])

text \<open>The \<^verbatim>\<open>if\<close> chain after the loop.\<close>

definition resolve_job ::
  "'i runtime \<Rightarrow> job_info \<Rightarrow> pyval \<Rightarrow> 'i world \<Rightarrow> unit result \<times> 'i world" where
  "resolve_job rt job response =
     andthen (lift (subscript response ''status'')) (\<lambda>st.
       if st = PStr ''COMPLETED'' then
         andthen (lift (subscript response ''output'')) (\<lambda>output.
         andthen (lift (subscript output ''images'')) (\<lambda>imgs.
         andthen (receive_images rt imgs) (\<lambda>ims.
         andthen (lift (py_get output ''pose'' PNone)) (\<lambda>pose.
         yield ((ClientMessage ClientEvent_finished (local_id job))
                  \<lparr>progress := PInt 1, images := Some ims, result := pose\<rparr>)))))
       else if st = PStr ''FAILED'' then
         andthen (lift (extract_error rt response (remote_id job))) (\<lambda>(err_msg, err_trace).
         yield ((ClientMessage ClientEvent_error (local_id job))\<lparr>error := err_msg\<rparr>))
       else if st = PStr ''CANCELLED'' then
         yield (ClientMessage ClientEvent_interrupted (local_id job))
       else if st = PStr ''TIMED_OUT'' then
         yield ((ClientMessage ClientEvent_error (local_id job))\<lparr>error := PStr ''job timed out''\<rparr>)
       else ret ())"

text \<open>
  \<^verbatim>\<open>_process_job\<close>, from the user's check to the last message. It also returns the
  job object, which it changes in place once the service has accepted the job, and it
  writes the quota the response reports into the shared user object.
\<close>

definition set_user :: "user \<Rightarrow> 'i world \<Rightarrow> unit result \<times> 'i world" where
  "set_user u w = (Return (), w\<lparr>user := Some u\<rparr>)"

definition track_job ::
  "'i runtime \<Rightarrow> job_info \<Rightarrow> user \<Rightarrow> pyval \<Rightarrow> 'i world \<Rightarrow> unit result \<times> 'i world" where
  "track_job rt job u response =
     andthen (lift (py_get response ''user'' PNone)) (\<lambda>reported.
     andthen (lift (update_user rt u reported)) (\<lambda>(cost, u').
     andthen (set_user u') (\<lambda>_.
     andthen (yield ((ClientMessage ClientEvent_progress (local_id job))\<lparr>progress := PInt 0\<rparr>)) (\<lambda>_.
     andthen (poll_loop rt job response) (\<lambda>final.
     resolve_job rt job final)))))"

definition process_job ::
  "'i runtime \<Rightarrow> job_info \<Rightarrow> 'i world \<Rightarrow> unit result \<times> job_info \<times> 'i world" where
  "process_job rt job w =
     (case user w of
        None \<Rightarrow> (Raise AssertionError, job, w)
      | Some u \<Rightarrow>
          (case andthen (send_images rt (to_dict rt (work job))) (\<lambda>inputs.
                  post ''generate'' (PDict [(''input'', PDict [(''workflow'', PDict inputs)])])) w of
             (Raise e, w1) \<Rightarrow> (Raise e, job, w1)
           | (Pending, w1) \<Rightarrow> (Pending, job, w1)
           | (Return response, w1) \<Rightarrow>
               (case subscript response ''id'' of
                  Inl e \<Rightarrow> (Raise e, job, w1)
                | Inr rid \<Rightarrow>
                    (case subscript response ''worker_id'' of
                       Inl e \<Rightarrow> (Raise e, job\<lparr>remote_id := rid\<rparr>, w1)
                     | Inr wid \<Rightarrow>
                         (let job' = job\<lparr>remote_id := rid, worker_id := wid\<rparr>;
                              (r, w2) = track_job rt job' u response w1
                          in (r, job', w2))))))"

section \<open>The listening loop\<close>

text \<open>\<^verbatim>\<open>str(e)\<close> of an exception: the message it was raised with, where the file gives one.\<close>

definition exc_str :: "'i runtime \<Rightarrow> exception \<Rightarrow> string" where
  "exc_str rt e =
     (case e of
        ValueError m \<Rightarrow> m
      | TimeoutError m \<Rightarrow> m
      | RuntimeError m \<Rightarrow> m
      | _ \<Rightarrow> exc_text rt e)"

text \<open>The two \<^verbatim>\<open>except\<close> clauses of \<open>listen\<close>, for the current job.\<close>

definition on_exception :: "'i runtime \<Rightarrow> job_info \<Rightarrow> exception \<Rightarrow> 'i world \<Rightarrow> 'i world" where
  "on_exception rt job e w =
     (case e of
        NetworkError ne \<Rightarrow>
          (case process_http_error rt ne w of
             (msg, w') \<Rightarrow>
               snd (yield ((ClientMessage ClientEvent_error (local_id job))\<lparr>error := PStr msg\<rparr>) w'))
      | _ \<Rightarrow>
          snd (yield ((ClientMessage ClientEvent_error (local_id job))\<lparr>error := PStr (exc_str rt e)\<rparr>) w))"

text \<open>
  The \<^verbatim>\<open>while True\<close> of \<open>listen\<close> over the jobs queued. It stops where the source
  waits: on the empty queue, with no current job, or inside a job whose reply never comes,
  with that job current and the rest still queued.
\<close>

fun listen_loop ::
  "'i runtime \<Rightarrow> job_info list \<Rightarrow> 'i world \<Rightarrow> job_info list \<times> 'i world" where
  "listen_loop rt [] w = ([], w)"
| "listen_loop rt (job # rest) w =
     (case process_job rt job (w\<lparr>current_job := Some job\<rparr>) of
        (Pending, job', w1) \<Rightarrow> (rest, w1\<lparr>current_job := Some job'\<rparr>)
      | (Return _, job', w1) \<Rightarrow> listen_loop rt rest (w1\<lparr>current_job := None\<rparr>)
      | (Raise e, job', w1) \<Rightarrow>
          listen_loop rt rest ((on_exception rt job' e (w1\<lparr>current_job := Some job'\<rparr>))
                                 \<lparr>current_job := None\<rparr>))"

definition listen :: "'i runtime \<Rightarrow> job_info list \<Rightarrow> 'i world \<Rightarrow> job_info list \<times> 'i world" where
  "listen rt q w = listen_loop rt q (snd (yield (ClientMessage ClientEvent_connected []) w))"

section \<open>An environment to run the definitions in\<close>

text \<open>
  A runtime for the examples: the standard base64 alphabet, a reader for the JSON
  objects the examples use (string members, no escapes, no blanks; any other text is a
  decode error), fixed texts elsewhere, and names standing for the decoded images.
\<close>

definition b64_alphabet :: string where
  "b64_alphabet = ''ABCDEFGHIJKLMNOPQRSTUVWXYZabcdefghijklmnopqrstuvwxyz0123456789+/''"

fun base64_text :: "nat list \<Rightarrow> string" where
  "base64_text [] = []"
| "base64_text [a] =
     [b64_alphabet ! (a div 4), b64_alphabet ! (a mod 4 * 16), CHR ''='', CHR ''='']"
| "base64_text [a, b] =
     [b64_alphabet ! (a div 4), b64_alphabet ! (a mod 4 * 16 + b div 16),
      b64_alphabet ! (b mod 16 * 4), CHR ''='']"
| "base64_text (a # b # c # bs) =
     [b64_alphabet ! (a div 4), b64_alphabet ! (a mod 4 * 16 + b div 16),
      b64_alphabet ! (b mod 16 * 4 + c div 64), b64_alphabet ! (c mod 64)] @ base64_text bs"

fun read_string :: "string \<Rightarrow> (string \<times> string) option" where
  "read_string [] = None"
| "read_string (c # cs) =
     (if c = CHR 0x22 then Some ([], cs)
      else if c = CHR 0x5C then None
      else (case read_string cs of None \<Rightarrow> None | Some (s, r) \<Rightarrow> Some (c # s, r)))"

fun read_members :: "string \<Rightarrow> string \<Rightarrow> dict option" where
  "read_members [] cs = None"
| "read_members (_ # fuel) cs =
     (case cs of
        [] \<Rightarrow> None
      | q # r1 \<Rightarrow>
          if q \<noteq> CHR 0x22 then None
          else (case read_string r1 of
                  None \<Rightarrow> None
                | Some (k, r2) \<Rightarrow>
                    if take 2 r2 \<noteq> [CHR '':'', CHR 0x22] then None
                    else (case read_string (drop 2 r2) of
                            None \<Rightarrow> None
                          | Some (v, r3) \<Rightarrow>
                              if r3 = ''}'' then Some [(k, PStr v)]
                              else if take 1 r3 = '','' then
                                map_option (\<lambda>d. (k, PStr v) # d) (read_members fuel (drop 1 r3))
                              else None)))"

definition read_json :: "pyval \<Rightarrow> exception + pyval" where
  "read_json v =
     (case v of
        PStr s \<Rightarrow>
          if s = ''{}'' then Inr (PDict [])
          else if take 1 s = ''{'' then
            (case read_members s (drop 1 s) of
               None \<Rightarrow> Inl JSONDecodeError
             | Some d \<Rightarrow> Inr (PDict d))
          else Inl JSONDecodeError
      | _ \<Rightarrow> Inl TypeError)"

definition sample_runtime :: "string runtime" where
  "sample_runtime =
     \<lparr> to_dict = (\<lambda>w. [(''batch_count'', PInt (batch_count w))]),
       from_bytes = (\<lambda>bytes offsets. Inr ''images from bytes''),
       from_base64 = (\<lambda>b64 offsets. Inr ''images from base64''),
       b64encode = (\<lambda>v. case v of PBytes bs \<Rightarrow> Inr (base64_text bs) | _ \<Rightarrow> Inl TypeError),
       json_loads = read_json,
       repr_text = (\<lambda>v. ''<value>''),
       exc_text = (\<lambda>e. ''<exception>''),
       arith_sub = (\<lambda>a b. Inl TypeError) \<rparr>"

definition sample_user :: user where
  "sample_user =
     \<lparr> user_id = PStr ''u-1'', user_name = PStr ''Robin'',
       images_generated = PInt 7, credits = PInt 100 \<rparr>"

definition sample_world :: "string world" where
  "sample_world =
     \<lparr> url = ''https://api.interstice.cloud'', token = ''secret'',
       user = Some sample_user, current_job = None,
       script = [], trace = [], emitted = [] \<rparr>"

definition sample_job :: job_info where
  "sample_job =
     \<lparr> local_id = ''local-1'', work = \<lparr>batch_count = 1, models = None\<rparr>,
       remote_id = PStr ''remote-1'', worker_id = PStr ''worker-1'' \<rparr>"

text \<open>Draws that never repeat: the draw number \<open>k\<close> is \<open>id-\<close> followed by \<open>k\<close> strokes.\<close>

definition sample_uuid4 :: "nat \<Rightarrow> string" where
  "sample_uuid4 k = ''id-'' @ replicate k (CHR ''i'')"

section \<open>Basic facts\<close>

lemma read_json_error_object:
  \<open>read_json (PStr ''{"error_message":"x","error_traceback":"y"}'') =
     Inr (PDict [(''error_message'', PStr ''x''), (''error_traceback'', PStr ''y'')])\<close>
  by (simp add: read_json_def)

lemma read_json_boom: "read_json (PStr ''boom'') = Inl JSONDecodeError"
  by (simp add: read_json_def)

lemma andthen_simps [simp]:
  "andthen (lift (Inr a)) f = f a"
  "andthen (lift (Inl e)) f = raise e"
  "andthen (ret a) f = f a"
  "andthen (raise e) f = raise e"
  by (auto simp: andthen_def lift_def ret_def raise_def fun_eq_iff)

lemma andthen_apply:
  "m s = (Return a, s') \<Longrightarrow> andthen m f s = f a s'"
  "m s = (Raise e, s') \<Longrightarrow> andthen m f s = (Raise e, s')"
  "m s = (Pending, s') \<Longrightarrow> andthen m f s = (Pending, s')"
  by (simp_all add: andthen_def)

lemma request_Reply:
  "script w = Reply v # rs \<Longrightarrow>
   request a w = (Return v, w\<lparr>script := rs, trace := trace w @ [a]\<rparr>)"
  by (simp add: request_def)

lemma request_Fail:
  "script w = Fail e # rs \<Longrightarrow>
   request a w = (Raise (NetworkError e), w\<lparr>script := rs, trace := trace w @ [a]\<rparr>)"
  by (simp add: request_def)

lemma request_Nil:
  "script w = [] \<Longrightarrow> request a w = (Pending, w\<lparr>trace := trace w @ [a]\<rparr>)"
  by (simp add: request_def)

lemma base64_size_div: "base64_size n = int ((n + 2) div 3) * 4"
proof -
  have "\<lceil>(of_nat n :: rat) / 3\<rceil> = \<lceil>(of_int (int n) :: rat) / of_int 3\<rceil>" by simp
  also have "\<dots> = - (- int n div 3)" by (rule ceiling_divide_eq_div)
  also have "\<dots> = int ((n + 2) div 3)" by (simp add: zdiv_int)
  finally show ?thesis by (simp add: base64_size_def)
qed

lemma base64_size_threshold: "base64_size n < 3500000 \<longleftrightarrow> n \<le> 2624997"
proof -
  have "base64_size n < 3500000 \<longleftrightarrow> (n + 2) div 3 < 875000"
    unfolding base64_size_div by linarith
  also have "\<dots> \<longleftrightarrow> n + 2 < 875000 * 3"
    by (rule div_less_iff_less_mult) simp
  also have "\<dots> \<longleftrightarrow> n \<le> 2624997" by linarith
  finally show ?thesis .
qed

text \<open>
  What leaves the signed-in user alone: every request, the payload transfer, the poll
  loop and the handling of the final response. In \<open>_process_job\<close> only
  \<open>set_user\<close> writes it.
\<close>

lemma request_user [simp]: "user (snd (request a w)) = user w"
  by (simp add: request_def split: list.splits reply.splits)

lemma andthen_user:
  assumes "\<And>s. user (snd (m s)) = user s" and "\<And>a s. user (snd (f a s)) = user s"
  shows "user (snd (andthen m f w)) = user w"
proof (cases "m w")
  case (Pair r s)
  with assms(1) [of w] have "user s = user w" by simp
  with Pair assms(2) show ?thesis by (cases r) (simp_all add: andthen_def)
qed

lemma lift_user [simp]: "user (snd (lift x w)) = user w"
  by (simp add: lift_def split: sum.splits)

lemma ret_user [simp]: "user (snd (ret x w)) = user w"
  by (simp add: ret_def)

lemma raise_user [simp]: "user (snd (raise e w)) = user w"
  by (simp add: raise_def)

lemma yield_user [simp]: "user (snd (yield m w)) = user w"
  by (simp add: yield_def)

lemma upload_to_s3_user [simp]: "user (snd (upload_to_s3 blob w)) = user w"
  unfolding upload_to_s3_def by (simp add: andthen_user get_def put_def)

lemma send_images_user [simp]: "user (snd (send_images rt inputs w)) = user w"
  unfolding send_images_def by (simp add: andthen_user split: option.splits)

lemma receive_images_user [simp]: "user (snd (receive_images rt imgs w)) = user w"
  unfolding receive_images_def by (simp add: andthen_user download_def)

lemma resolve_job_user [simp]: "user (snd (resolve_job rt job response w)) = user w"
  unfolding resolve_job_def case_prod_beta
  by (rule andthen_user, rule lift_user) (simp add: andthen_user)

lemma post_user [simp]: "user (snd (post op body w)) = user w"
  by (simp add: post_def)

lemma poll_loop_user [simp]: "user (snd (poll_loop rt job response w)) = user w"
proof (induction rt job response w rule: poll_loop.induct)
  case (1 rt job response w)
  show ?case
  proof (cases "subscript response ''status''")
    case (Inl e)
    then show ?thesis by (subst poll_loop.simps) simp
  next
    case (Inr st)
    show ?thesis
    proof (cases "st = PStr ''IN_QUEUE'' \<or> st = PStr ''IN_PROGRESS''")
      case False
      with Inr show ?thesis by (subst poll_loop.simps) simp
    next
      case True
      obtain r v where p: "post (''status/'' @ py_str rt (worker_id job) @ ''/''
                                   @ py_str rt (remote_id job)) (PDict []) w = (r, v)"
        by (cases "post (''status/'' @ py_str rt (worker_id job) @ ''/''
                                   @ py_str rt (remote_id job)) (PDict []) w")
      have u: "user v = user w" using p by (metis post_user snd_conv)
      show ?thesis
      proof (cases r)
        case (Return response')
        show ?thesis
        proof (cases "poll_event job response' :: exception + 'a client_message list")
          case (Inl e)
          with Inr True p Return u show ?thesis
            by (subst poll_loop.simps) (simp del: poll_loop.simps)
        next
          case (Inr ms)
          from "1.IH" [OF \<open>subscript response ''status'' = Inr st\<close> True p [symmetric] Return Inr]
          have "user (snd (poll_loop rt job response' (sleep poll_interval (yield_all ms v))))
                = user v"
            by (simp add: sleep_def yield_all_def del: poll_loop.simps)
          with \<open>subscript response ''status'' = Inr st\<close> True p Return Inr u show ?thesis
            by (subst poll_loop.simps) (simp del: poll_loop.simps)
        qed
      next
        case (Raise e)
        with Inr True p u show ?thesis by (subst poll_loop.simps) (simp del: poll_loop.simps)
      next
        case Pending
        with Inr True p u show ?thesis by (subst poll_loop.simps) (simp del: poll_loop.simps)
      qed
    qed
  qed
qed

lemma track_job_user:
  assumes "ethen (py_get response ''user'' PNone) (update_user rt u) = Inr (cost, u')"
  shows "user (snd (track_job rt job u response w)) = Some u'"
proof -
  from assms obtain reported where r: "py_get response ''user'' PNone = Inr reported"
    and v: "update_user rt u reported = Inr (cost, u')"
    by (cases "py_get response ''user'' PNone") (simp_all add: ethen_def)
  have "user (snd (andthen (yield ((ClientMessage ClientEvent_progress (local_id job))\<lparr>progress := PInt 0\<rparr>)) (\<lambda>_.
     andthen (poll_loop rt job response) (\<lambda>final.
     resolve_job rt job final)) s)) = user s" for s :: "'a world"
    by (simp add: andthen_user del: poll_loop.simps)
  then show ?thesis
    unfolding track_job_def by (simp add: r v set_user_def andthen_def del: poll_loop.simps)
qed

lemma process_job_user:
  assumes "user w = Some u"
    and "send_images rt (to_dict rt (work job)) w = (Return inputs, w1)"
    and "script w1 = Reply response # rest"
    and "subscript response ''id'' = Inr rid"
    and "subscript response ''worker_id'' = Inr wid"
    and "ethen (py_get response ''user'' PNone) (update_user rt u) = Inr (cost, u')"
  shows "user (snd (snd (process_job rt job w))) = Some u'"
proof -
  have "andthen (send_images rt (to_dict rt (work job))) (\<lambda>inputs.
                  post ''generate'' (PDict [(''input'', PDict [(''workflow'', PDict inputs)])])) w
        = (Return response, w1\<lparr>script := rest,
             trace := trace w1 @ [Post (url w1 @ ''/'' @ ''generate'')
                (PDict [(''input'', PDict [(''workflow'', PDict inputs)])]) (token w1)]\<rparr>)"
    using assms(2,3) by (simp add: andthen_def post_def request_Reply)
  with assms(1,4,5) track_job_user [OF assms(6)] show ?thesis
    by (simp add: process_job_def Let_def case_prod_beta)
qed

text \<open>The identifiers a run of \<open>enqueue\<close> calls gives to the queue are the draws it made.\<close>

lemma inj_sample_uuid4: "inj sample_uuid4"
proof (rule injI)
  fix x y assume "sample_uuid4 x = sample_uuid4 y"
  then have "length (replicate x (CHR ''i'')) = length (replicate y (CHR ''i''))"
    unfolding sample_uuid4_def by (metis same_append_eq)
  then show "x = y" by simp
qed

lemma enqueue_fold_ids:
  "map local_id (queue (fold (\<lambda>(a, b) t. snd (enqueue uuid a b t)) calls s))
     = map local_id (queue s) @ map uuid [drawn s ..< drawn s + length calls]
   \<and> drawn (fold (\<lambda>(a, b) t. snd (enqueue uuid a b t)) calls s)
     = drawn s + length calls"
proof (induction calls arbitrary: s)
  case Nil
  show ?case by simp
next
  case (Cons c calls)
  obtain wk front where c: "c = (wk, front)" by (cases c)
  have "[drawn s ..< drawn s + Suc (length calls)]
        = drawn s # [Suc (drawn s) ..< Suc (drawn s) + length calls]"
    by (subst upt_rec) simp
  with Cons [of "snd (enqueue uuid wk front s)"] c show ?case
    by (simp add: enqueue_def Let_def)
qed

text \<open>
  What yields nothing, the message of each poll response, and the poll loop one request
  at a time.
\<close>

lemma request_emitted [simp]: "emitted (snd (request a w)) = emitted w"
  by (simp add: request_def split: list.splits reply.splits)

lemma andthen_emitted:
  assumes "\<And>s. emitted (snd (m s)) = emitted s" and "\<And>a s. emitted (snd (f a s)) = emitted s"
  shows "emitted (snd (andthen m f w)) = emitted w"
proof (cases "m w")
  case (Pair r s)
  with assms(1) [of w] have "emitted s = emitted w" by simp
  with Pair assms(2) show ?thesis by (cases r) (simp_all add: andthen_def)
qed

lemma lift_emitted [simp]: "emitted (snd (lift x w)) = emitted w"
  by (simp add: lift_def split: sum.splits)

lemma ret_emitted [simp]: "emitted (snd (ret x w)) = emitted w"
  by (simp add: ret_def)

lemma raise_emitted [simp]: "emitted (snd (raise e w)) = emitted w"
  by (simp add: raise_def)

lemma upload_to_s3_emitted [simp]: "emitted (snd (upload_to_s3 blob w)) = emitted w"
  unfolding upload_to_s3_def by (simp add: andthen_emitted get_def put_def)

lemma send_images_emitted [simp]: "emitted (snd (send_images rt inputs w)) = emitted w"
  unfolding send_images_def by (simp add: andthen_emitted split: option.splits)

lemma receive_images_emitted [simp]: "emitted (snd (receive_images rt imgs w)) = emitted w"
  unfolding receive_images_def by (simp add: andthen_emitted download_def)

lemma poll_event_queued:
  "map_of d ''status'' = Some (PStr ''IN_QUEUE'') \<Longrightarrow>
   poll_event job (PDict d) = Inr [ClientMessage ClientEvent_queued (local_id job)]"
  by (simp add: poll_event_def ethen_def)

lemma poll_event_reported:
  "map_of d ''status'' = Some (PStr ''IN_PROGRESS'') \<Longrightarrow>
   map_of d ''output'' = Some (PDict out) \<Longrightarrow> map_of out ''progress'' = Some p \<Longrightarrow>
   poll_event job (PDict d) = Inr [(ClientMessage ClientEvent_progress (local_id job))\<lparr>progress := p\<rparr>]"
  by (cases out) (auto simp: poll_event_def ethen_def)

lemma poll_event_placeholder:
  "map_of d ''status'' = Some (PStr ''IN_PROGRESS'') \<Longrightarrow>
   map_of d ''output'' = None \<or> (\<exists>v. map_of d ''output'' = Some v \<and> \<not> truthy v)
     \<or> (\<exists>out. map_of d ''output'' = Some (PDict out) \<and> map_of out ''progress'' = None) \<Longrightarrow>
   poll_event job (PDict d)
     = Inr [(ClientMessage ClientEvent_progress (local_id job))\<lparr>progress := PFloat (9 / 100)\<rparr>]"
  by (auto simp: poll_event_def ethen_def)

lemma poll_loop_step:
  assumes "subscript response ''status'' = Inr st"
    and "st = PStr ''IN_QUEUE'' \<or> st = PStr ''IN_PROGRESS''"
    and "script w = Reply r # rs"
    and "poll_event job r = Inr ms"
  shows "poll_loop rt job response w =
     poll_loop rt job r
       (w\<lparr>script := rs,
          trace := trace w @
            [Post (url w @ ''/'' @ ''status/'' @ py_str rt (worker_id job) @ ''/''
                     @ py_str rt (remote_id job)) (PDict []) (token w),
             Sleep poll_interval],
          emitted := emitted w @ ms\<rparr>)"
  using assms
  by (subst poll_loop.simps)
     (auto simp: post_def request_Reply sleep_def yield_all_def simp del: poll_loop.simps
           intro!: arg_cong [where f = "poll_loop rt job r"])

lemma poll_loop_fail:
  assumes "subscript response ''status'' = Inr st"
    and "st = PStr ''IN_QUEUE'' \<or> st = PStr ''IN_PROGRESS''"
    and "script w = Fail e # rs"
  shows "poll_loop rt job response w =
     (Raise (NetworkError e),
       w\<lparr>script := rs,
          trace := trace w @
            [Post (url w @ ''/'' @ ''status/'' @ py_str rt (worker_id job) @ ''/''
                     @ py_str rt (remote_id job)) (PDict []) (token w)]\<rparr>)"
  using assms
  by (subst poll_loop.simps)
     (auto simp: post_def request_Fail simp del: poll_loop.simps)

lemma poll_loop_exit:
  assumes "subscript response ''status'' = Inr st"
    and "st \<noteq> PStr ''IN_QUEUE''" and "st \<noteq> PStr ''IN_PROGRESS''"
  shows "poll_loop rt job response w = (Return response, w)"
  using assms by (subst poll_loop.simps) (simp del: poll_loop.simps)

lemma track_job_poll_sequence:
  fixes w :: "'i world"
  assumes update: "ethen (py_get (PDict submitted) ''user'' PNone) (update_user rt u) = Inr (cost, u')"
    and st: "map_of submitted ''status'' = Some st" "st = PStr ''IN_QUEUE'' \<or> st = PStr ''IN_PROGRESS''"
    and script: "script w = Reply (PDict ra) # Reply (PDict rb) # Reply (PDict rc)
                   # Reply (PDict rd) # rest"
    and ra: "map_of ra ''status'' = Some (PStr ''IN_QUEUE'')"
    and rb: "map_of rb ''status'' = Some (PStr ''IN_PROGRESS'')"
            "map_of rb ''output'' = Some (PDict ob)" "map_of ob ''progress'' = Some pb"
    and rc: "map_of rc ''status'' = Some (PStr ''IN_PROGRESS'')"
            "map_of rc ''output'' = Some (PDict oc)" "map_of oc ''progress'' = Some pc"
    and rd: "map_of rd ''status'' = Some (PStr ''COMPLETED'')"
            "map_of rd ''output'' = Some (PDict od)" "map_of od ''images'' = Some imgs"
            "py_get (PDict od) ''pose'' PNone = Inr pose"
    and recv: "\<forall>v :: 'i world. script v = rest \<longrightarrow> fst (receive_images rt imgs v) = Return ims"
  shows "fst (track_job rt job u (PDict submitted) w) = Return ()
     \<and> emitted (snd (track_job rt job u (PDict submitted) w)) = emitted w @
         [(ClientMessage ClientEvent_progress (local_id job))\<lparr>progress := PInt 0\<rparr>,
          ClientMessage ClientEvent_queued (local_id job),
          (ClientMessage ClientEvent_progress (local_id job))\<lparr>progress := pb\<rparr>,
          (ClientMessage ClientEvent_progress (local_id job))\<lparr>progress := pc\<rparr>,
          (ClientMessage ClientEvent_finished (local_id job))
             \<lparr>progress := PInt 1, images := Some ims, result := pose\<rparr>]"
proof -
  let ?next = "\<lambda>(v :: 'i world) rs ms. v\<lparr>script := rs,
          trace := trace v @
            [Post (url v @ ''/'' @ ''status/'' @ py_str rt (worker_id job) @ ''/''
                     @ py_str rt (remote_id job)) (PDict []) (token v),
             Sleep poll_interval],
          emitted := emitted v @ ms\<rparr>"
  define wz where "wz = w\<lparr>user := Some u',
      emitted := emitted w @ [(ClientMessage ClientEvent_progress (local_id job))\<lparr>progress := PInt 0\<rparr>]\<rparr>"
  define wa where "wa = ?next wz (Reply (PDict rb) # Reply (PDict rc) # Reply (PDict rd) # rest)
      [ClientMessage ClientEvent_queued (local_id job)]"
  define wb where "wb = ?next wa (Reply (PDict rc) # Reply (PDict rd) # rest)
      [(ClientMessage ClientEvent_progress (local_id job))\<lparr>progress := pb\<rparr>]"
  define wc where "wc = ?next wb (Reply (PDict rd) # rest)
      [(ClientMessage ClientEvent_progress (local_id job))\<lparr>progress := pc\<rparr>]"
  define wd where "wd = ?next wc rest ([] :: 'i client_message list)"
  from update obtain reported where "py_get (PDict submitted) ''user'' PNone = Inr reported"
    and "update_user rt u reported = Inr (cost, u')"
    by (cases "py_get (PDict submitted) ''user'' PNone") (simp_all add: ethen_def)
  then have t: "track_job rt job u (PDict submitted) w
      = andthen (poll_loop rt job (PDict submitted)) (resolve_job rt job) wz"
    unfolding track_job_def wz_def
    by (simp add: set_user_def yield_def andthen_def del: poll_loop.simps)
  have "poll_loop rt job (PDict submitted) wz = poll_loop rt job (PDict ra) wa"
    unfolding wa_def
    by (rule poll_loop_step [where st = st])
       (use st script ra in \<open>simp_all add: wz_def poll_event_queued\<close>)
  also have "\<dots> = poll_loop rt job (PDict rb) wb"
    unfolding wb_def
    by (rule poll_loop_step [where st = "PStr ''IN_QUEUE''"])
       (use ra rb in \<open>simp_all add: wa_def poll_event_reported\<close>)
  also have "\<dots> = poll_loop rt job (PDict rc) wc"
    unfolding wc_def
    by (rule poll_loop_step [where st = "PStr ''IN_PROGRESS''"])
       (use rb rc in \<open>simp_all add: wb_def poll_event_reported\<close>)
  also have "\<dots> = poll_loop rt job (PDict rd) wd"
    unfolding wd_def
    by (rule poll_loop_step [where st = "PStr ''IN_PROGRESS''"])
       (use rc rd in \<open>simp_all add: wc_def poll_event_def ethen_def\<close>)
  also have "\<dots> = (Return (PDict rd), wd)"
    by (rule poll_loop_exit [where st = "PStr ''COMPLETED''"]) (use rd in simp_all)
  finally have p: "poll_loop rt job (PDict submitted) wz = (Return (PDict rd), wd)" .
  have sd: "script wd = rest" by (simp add: wd_def)
  have ed: "emitted wd = emitted w @
         [(ClientMessage ClientEvent_progress (local_id job))\<lparr>progress := PInt 0\<rparr>,
          ClientMessage ClientEvent_queued (local_id job),
          (ClientMessage ClientEvent_progress (local_id job))\<lparr>progress := pb\<rparr>,
          (ClientMessage ClientEvent_progress (local_id job))\<lparr>progress := pc\<rparr>]"
    by (simp add: wd_def wc_def wb_def wa_def wz_def)
  obtain r v where rv: "receive_images rt imgs wd = (r, v)" by (cases "receive_images rt imgs wd")
  with recv sd have r: "r = Return ims" by (metis fst_conv)
  from rv receive_images_emitted [of rt imgs wd] have ev: "emitted v = emitted wd" by simp
  have "resolve_job rt job (PDict rd) wd = (Return (),
      v\<lparr>emitted := emitted v @ [(ClientMessage ClientEvent_finished (local_id job))
             \<lparr>progress := PInt 1, images := Some ims, result := pose\<rparr>]\<rparr>)"
    unfolding resolve_job_def using rd rv r
    by (simp add: andthen_apply(1) [where m = "receive_images rt imgs" and s = wd] yield_def)
  with t p ev ed show ?thesis by (simp add: andthen_def del: poll_loop.simps)
qed

text \<open>
  A job that does not run to its end has yielded no error message: the poll loop yields
  only queued and progress messages, and the final response yields as its last step.
\<close>

lemma poll_event_no_error:
  "poll_event job r = Inr ms \<Longrightarrow> \<forall>m\<in>set ms. event m \<noteq> ClientEvent_error"
  by (auto simp: poll_event_def ethen_def ClientMessage_def split: sum.splits if_splits)

lemma poll_loop_no_error:
  "\<exists>ms. emitted (snd (poll_loop rt job response w)) = emitted w @ ms
        \<and> (\<forall>m\<in>set ms. event m \<noteq> ClientEvent_error)"
proof (induction rt job response w rule: poll_loop.induct)
  case (1 rt job response w)
  show ?case
  proof (cases "subscript response ''status''")
    case (Inl e)
    then show ?thesis by (subst poll_loop.simps) simp
  next
    case (Inr st)
    show ?thesis
    proof (cases "st = PStr ''IN_QUEUE'' \<or> st = PStr ''IN_PROGRESS''")
      case False
      with Inr show ?thesis by (subst poll_loop.simps) simp
    next
      case True
      obtain r v where p: "post (''status/'' @ py_str rt (worker_id job) @ ''/''
                                   @ py_str rt (remote_id job)) (PDict []) w = (r, v)"
        by (cases "post (''status/'' @ py_str rt (worker_id job) @ ''/''
                                   @ py_str rt (remote_id job)) (PDict []) w")
      have u: "emitted v = emitted w" using p by (metis post_def request_emitted snd_conv)
      show ?thesis
      proof (cases r)
        case (Return response')
        show ?thesis
        proof (cases "poll_event job response' :: exception + 'a client_message list")
          case (Inl e)
          with Inr True p Return u show ?thesis
            by (subst poll_loop.simps) (simp del: poll_loop.simps)
        next
          case ev: (Inr ms)
          from "1.IH" [OF Inr True p [symmetric] Return ev]
          obtain ms' where
            "emitted (snd (poll_loop rt job response' (sleep poll_interval (yield_all ms v))))
                = emitted w @ ms @ ms'" and "\<forall>m\<in>set ms'. event m \<noteq> ClientEvent_error"
            using u by (auto simp: sleep_def yield_all_def simp del: poll_loop.simps)
          with poll_event_no_error [OF ev] Inr True p Return ev show ?thesis
            by (subst poll_loop.simps)
               (auto simp del: poll_loop.simps intro!: exI [where x = "ms @ ms'"])
        qed
      next
        case (Raise e)
        with Inr True p u show ?thesis by (subst poll_loop.simps) (simp del: poll_loop.simps)
      next
        case Pending
        with Inr True p u show ?thesis by (subst poll_loop.simps) (simp del: poll_loop.simps)
      qed
    qed
  qed
qed

lemma andthen_unless_return:
  fixes f :: "'a \<Rightarrow> 'i world \<Rightarrow> unit result \<times> 'i world"
  assumes "fst (andthen m f w) \<noteq> Return ()"
    and "\<And>s. emitted (snd (m s)) = emitted s"
    and "\<And>a s. fst (f a s) \<noteq> Return () \<Longrightarrow> emitted (snd (f a s)) = emitted s"
  shows "emitted (snd (andthen m f w)) = emitted w"
proof (cases "m w")
  case (Pair r s)
  with assms(2) [of w] have "emitted s = emitted w" by simp
  with Pair assms(1,3) show ?thesis by (cases r) (auto simp: andthen_def)
qed

lemma yield_returns [simp]: "fst (yield m w) = Return ()"
  by (simp add: yield_def)

lemma resolve_job_unless_return:
  assumes "fst (resolve_job rt job response w) \<noteq> Return ()"
  shows "emitted (snd (resolve_job rt job response w)) = emitted w"
proof (cases "subscript response ''status''")
  case (Inl e)
  then show ?thesis by (simp add: resolve_job_def raise_def)
next
  case (Inr st)
  consider (completed) "st = PStr ''COMPLETED''" | (failed) "st = PStr ''FAILED''"
    | (other) "st \<noteq> PStr ''COMPLETED''" "st \<noteq> PStr ''FAILED''" by blast
  then show ?thesis
  proof cases
    case completed
    with Inr have r: "resolve_job rt job response =
         andthen (lift (subscript response ''output'')) (\<lambda>output.
         andthen (lift (subscript output ''images'')) (\<lambda>imgs.
         andthen (receive_images rt imgs) (\<lambda>ims.
         andthen (lift (py_get output ''pose'' PNone)) (\<lambda>pose.
         yield ((ClientMessage ClientEvent_finished (local_id job))
                  \<lparr>progress := PInt 1, images := Some ims, result := pose\<rparr>)))))"
      by (simp add: resolve_job_def)
    from assms show ?thesis unfolding r
      by (elim andthen_unless_return) simp_all
  next
    case failed
    with Inr have r: "resolve_job rt job response =
         andthen (lift (extract_error rt response (remote_id job))) (\<lambda>(err_msg, err_trace).
         yield ((ClientMessage ClientEvent_error (local_id job))\<lparr>error := err_msg\<rparr>))"
      by (simp add: resolve_job_def)
    from assms show ?thesis unfolding r
      by (elim andthen_unless_return) (simp_all add: case_prod_beta)
  next
    case other
    with Inr assms show ?thesis
      by (auto simp: resolve_job_def ret_def split: if_splits)
  qed
qed

lemma track_job_no_error:
  assumes "fst (track_job rt job u response w) \<noteq> Return ()"
  shows "\<exists>ms. emitted (snd (track_job rt job u response w)) = emitted w @ ms
        \<and> (\<forall>m\<in>set ms. event m \<noteq> ClientEvent_error)"
proof (cases "ethen (py_get response ''user'' PNone) (update_user rt u)")
  case (Inl e)
  then have "track_job rt job u response w = (Raise e, w)"
    by (cases "py_get response ''user'' PNone")
       (simp_all add: track_job_def ethen_def raise_def del: poll_loop.simps)
  then show ?thesis by simp
next
  case (Inr p)
  obtain cost u' where p: "p = (cost, u')" by (cases p)
  define wz where "wz = w\<lparr>user := Some u',
      emitted := emitted w @ [(ClientMessage ClientEvent_progress (local_id job))\<lparr>progress := PInt 0\<rparr>]\<rparr>"
  from Inr obtain reported where "py_get response ''user'' PNone = Inr reported"
    and "update_user rt u reported = Inr (cost, u')"
    unfolding p by (cases "py_get response ''user'' PNone") (simp_all add: ethen_def)
  then have t: "track_job rt job u response w
      = andthen (poll_loop rt job response) (resolve_job rt job) wz"
    unfolding track_job_def wz_def
    by (simp add: set_user_def yield_def andthen_def del: poll_loop.simps)
  obtain r v where pl: "poll_loop rt job response wz = (r, v)"
    by (cases "poll_loop rt job response wz")
  from poll_loop_no_error [of rt job response wz] pl obtain ms where
    ms: "emitted v = emitted wz @ ms" "\<forall>m\<in>set ms. event m \<noteq> ClientEvent_error" by auto
  have z: "emitted wz = emitted w @ [(ClientMessage ClientEvent_progress (local_id job))\<lparr>progress := PInt 0\<rparr>]"
    by (simp add: wz_def)
  have "emitted (snd (track_job rt job u response w)) = emitted v"
  proof (cases r)
    case (Return final)
    with t pl have e: "track_job rt job u response w = resolve_job rt job final v"
      by (simp add: andthen_def del: poll_loop.simps)
    with assms resolve_job_unless_return [of rt job final v] show ?thesis by simp
  next
    case (Raise e)
    with t pl show ?thesis by (simp add: andthen_def del: poll_loop.simps)
  next
    case Pending
    with t pl show ?thesis by (simp add: andthen_def del: poll_loop.simps)
  qed
  with ms z show ?thesis
    by (intro exI [where x = "(ClientMessage ClientEvent_progress (local_id job))\<lparr>progress := PInt 0\<rparr> # ms"])
       (simp add: ClientMessage_def)
qed

lemma process_job_no_error:
  assumes "fst (process_job rt job w) \<noteq> Return ()"
  shows "\<exists>ms. emitted (snd (snd (process_job rt job w))) = emitted w @ ms
        \<and> (\<forall>m\<in>set ms. event m \<noteq> ClientEvent_error)"
proof (cases "user w")
  case None
  then show ?thesis by (simp add: process_job_def)
next
  case (Some u)
  let ?m = "andthen (send_images rt (to_dict rt (work job))) (\<lambda>inputs.
                  post ''generate'' (PDict [(''input'', PDict [(''workflow'', PDict inputs)])]))"
  obtain r v where g: "?m w = (r, v)" by (cases "?m w")
  have "emitted (snd (?m w)) = emitted w"
    by (rule andthen_emitted) (simp_all add: post_def)
  with g have v: "emitted v = emitted w" by simp
  show ?thesis
  proof (cases r)
    case (Return response)
    show ?thesis
    proof (cases "subscript response ''id''")
      case (Inl e)
      with Some g Return v show ?thesis by (simp add: process_job_def)
    next
      case rid: (Inr rid)
      show ?thesis
      proof (cases "subscript response ''worker_id''")
        case (Inl e)
        with Some g Return v rid show ?thesis by (simp add: process_job_def)
      next
        case (Inr wid)
        with Some g Return rid have p: "process_job rt job w
           = (fst (track_job rt (job\<lparr>remote_id := rid, worker_id := wid\<rparr>) u response v),
              job\<lparr>remote_id := rid, worker_id := wid\<rparr>,
              snd (track_job rt (job\<lparr>remote_id := rid, worker_id := wid\<rparr>) u response v))"
          by (simp add: process_job_def Let_def case_prod_beta)
        with assms track_job_no_error [of rt "job\<lparr>remote_id := rid, worker_id := wid\<rparr>" u response v] v
        show ?thesis by simp
      qed
    qed
  next
    case (Raise e)
    with Some g v show ?thesis by (simp add: process_job_def)
  next
    case Pending
    with Some g v show ?thesis by (simp add: process_job_def)
  qed
qed

lemma process_job_local_id: "local_id (fst (snd (process_job rt job w))) = local_id job"
  by (simp add: process_job_def Let_def case_prod_beta
           split: option.splits prod.splits result.splits sum.splits)

section \<open>Claims\<close>

text \<open>
  C10. Whatever the configured settings, \<open>performance_settings\<close> returns batch size 4
  (the configured batch size has no effect) and maximum pixel count
  \<open>min 8\<close> of the configured one.
\<close>

theorem performance_settings_batch_size_const:
  "batch_size (performance_settings settings) = 4 \<and>
   max_pixel_count (performance_settings settings) = min 8 (max_pixel_count settings) \<and>
   batch_size (performance_settings (settings\<lparr>batch_size := b\<rparr>)) =
     batch_size (performance_settings settings)"
  by (simp add: performance_settings_def)

text \<open>
  C2. A blob of \<open>S\<close> bytes with offsets is embedded inline as base64, with no request
  made, when \<open>\<lceil>S / 3\<rceil> * 4 < 3500000\<close>; otherwise the client asks for an upload target,
  puts the raw bytes there, and embeds the object reference the service returned
  together with the offsets.
\<close>

theorem send_images_inline_iff_small:
  assumes "map_of inputs ''image_data'' = Some (PDict d)"
    and "map_of d ''bytes'' = Some (PBytes blob)"
    and "map_of d ''offsets'' = Some offsets"
  shows "(\<lceil>(of_nat (length blob) :: rat) / 3\<rceil> * 4 < 3500000 \<longrightarrow>
            b64encode rt (PBytes blob) = Inr encoded \<longrightarrow>
            send_images rt inputs w =
              (Return (AList.update ''image_data''
                         (PDict [(''base64'', PStr encoded), (''offsets'', offsets)]) inputs), w))
       \<and> (\<not> \<lceil>(of_nat (length blob) :: rat) / 3\<rceil> * 4 < 3500000 \<longrightarrow>
            script w = Reply upload_info # Reply ack # rest \<longrightarrow>
            subscript upload_info ''url'' = Inr target \<longrightarrow>
            subscript upload_info ''object'' = Inr obj \<longrightarrow>
            send_images rt inputs w =
              (Return (AList.update ''image_data''
                         (PDict [(''s3_object'', obj), (''offsets'', offsets)]) inputs),
               w\<lparr>script := rest,
                 trace := trace w @ [Get (url w @ ''/upload'') (token w), Put target (PBytes blob)]\<rparr>))"
proof -
  from assms(2) have d: "d \<noteq> []" by auto
  show ?thesis
  proof (intro conjI impI)
    assume "\<lceil>(of_nat (length blob) :: rat) / 3\<rceil> * 4 < 3500000"
      and "b64encode rt (PBytes blob) = Inr encoded"
    then show "send_images rt inputs w =
              (Return (AList.update ''image_data''
                         (PDict [(''base64'', PStr encoded), (''offsets'', offsets)]) inputs), w)"
      using assms d by (simp add: send_images_def base64_size_def ret_def)
  next
    assume big: "\<not> \<lceil>(of_nat (length blob) :: rat) / 3\<rceil> * 4 < 3500000"
      and s: "script w = Reply upload_info # Reply ack # rest"
      and u: "subscript upload_info ''url'' = Inr target"
      and ob: "subscript upload_info ''object'' = Inr obj"
    have "upload_to_s3 (PBytes blob) w =
        (Return obj, w\<lparr>script := rest,
                 trace := trace w @ [Get (url w @ ''/upload'') (token w), Put target (PBytes blob)]\<rparr>)"
      using s u ob
      by (simp add: upload_to_s3_def get_def put_def andthen_def request_Reply lift_def)
    then show "send_images rt inputs w =
              (Return (AList.update ''image_data''
                         (PDict [(''s3_object'', obj), (''offsets'', offsets)]) inputs),
               w\<lparr>script := rest,
                 trace := trace w @ [Get (url w @ ''/upload'') (token w), Put target (PBytes blob)]\<rparr>)"
      using assms d big by (simp add: send_images_def base64_size_def andthen_apply ret_def)
  qed
qed

theorem send_images_inline_iff_small_witness:
  "send_images sample_runtime
     [(''image_data'', PDict [(''bytes'', PBytes (replicate 2624997 0)), (''offsets'', PList [PInt 0])])]
     sample_world
   = (Return [(''image_data'',
         PDict [(''base64'', PStr (base64_text (replicate 2624997 0))), (''offsets'', PList [PInt 0])])],
      sample_world)
   \<and> send_images sample_runtime
     [(''image_data'', PDict [(''bytes'', PBytes (replicate 2624998 0)), (''offsets'', PList [PInt 0])])]
     (sample_world\<lparr>script := [Reply (PDict [(''url'', PStr ''https://store/put''), (''object'', PStr ''obj-1'')]),
                               Reply PNone]\<rparr>)
   = (Return [(''image_data'',
         PDict [(''s3_object'', PStr ''obj-1''), (''offsets'', PList [PInt 0])])],
      sample_world\<lparr>script := [],
        trace := [Get ''https://api.interstice.cloud/upload'' ''secret'',
                  Put (PStr ''https://store/put'') (PBytes (replicate 2624998 0))]\<rparr>)"
proof -
  have small: "\<lceil>(of_nat (length (replicate 2624997 (0::nat))) :: rat) / 3\<rceil> * 4 < 3500000"
    using base64_size_threshold [of 2624997] by (simp add: base64_size_def)
  have big: "\<not> \<lceil>(of_nat (length (replicate 2624998 (0::nat))) :: rat) / 3\<rceil> * 4 < 3500000"
    using base64_size_threshold [of 2624998] by (simp add: base64_size_def)
  note a = send_images_inline_iff_small
    [where inputs = "[(''image_data'', PDict [(''bytes'', PBytes (replicate 2624997 0)), (''offsets'', PList [PInt 0])])]"
       and d = "[(''bytes'', PBytes (replicate 2624997 0)), (''offsets'', PList [PInt 0])]"
       and blob = "replicate 2624997 0" and offsets = "PList [PInt 0]" and rt = sample_runtime
       and encoded = "base64_text (replicate 2624997 0)" and w = sample_world,
     THEN conjunct1, rule_format, OF _ _ _ small]
  note b = send_images_inline_iff_small
    [where inputs = "[(''image_data'', PDict [(''bytes'', PBytes (replicate 2624998 0)), (''offsets'', PList [PInt 0])])]"
       and d = "[(''bytes'', PBytes (replicate 2624998 0)), (''offsets'', PList [PInt 0])]"
       and blob = "replicate 2624998 0" and offsets = "PList [PInt 0]" and rt = sample_runtime
       and w = "sample_world\<lparr>script := [Reply (PDict [(''url'', PStr ''https://store/put''), (''object'', PStr ''obj-1'')]),
                               Reply PNone]\<rparr>"
       and upload_info = "PDict [(''url'', PStr ''https://store/put''), (''object'', PStr ''obj-1'')]"
       and ack = PNone and rest = "[]"
       and target = "PStr ''https://store/put''" and obj = "PStr ''obj-1''",
     THEN conjunct2, rule_format, OF _ _ _ big]
  have A: "send_images sample_runtime
     [(''image_data'', PDict [(''bytes'', PBytes (replicate 2624997 0)), (''offsets'', PList [PInt 0])])]
     sample_world
   = (Return [(''image_data'',
         PDict [(''base64'', PStr (base64_text (replicate 2624997 0))), (''offsets'', PList [PInt 0])])],
      sample_world)"
    using a by (simp add: sample_runtime_def)
  have B: "send_images sample_runtime
     [(''image_data'', PDict [(''bytes'', PBytes (replicate 2624998 0)), (''offsets'', PList [PInt 0])])]
     (sample_world\<lparr>script := [Reply (PDict [(''url'', PStr ''https://store/put''), (''object'', PStr ''obj-1'')]),
                               Reply PNone]\<rparr>)
   = (Return [(''image_data'',
         PDict [(''s3_object'', PStr ''obj-1''), (''offsets'', PList [PInt 0])])],
      sample_world\<lparr>script := [],
        trace := [Get ''https://api.interstice.cloud/upload'' ''secret'',
                  Put (PStr ''https://store/put'') (PBytes (replicate 2624998 0))]\<rparr>)"
    using b by (simp add: sample_world_def)
  from A B show ?thesis by (rule conjI)
qed

text \<open>
  C4. Whatever else the payload of result images carries (a download address, inline
  base64 data, both or neither), \<open>receive_images\<close> raises the \<open>ValueError\<close> for invalid
  offsets, without any request, when the offsets are absent, not a list, or an empty
  list. Only with a non-empty list of offsets does it go on: it downloads from the
  address when there is one, and decodes the inline data otherwise.
\<close>

theorem receive_images_requires_offsets:
  "((\<forall>x xs. map_of d ''offsets'' \<noteq> Some (PList (x # xs))) \<longrightarrow>
      receive_images rt (PDict d) w =
        (Raise (ValueError (''Could not read result images, invalid offsets: ''
                  @ py_str rt (case map_of d ''offsets'' of None \<Rightarrow> PNone | Some v \<Rightarrow> v))), w))
   \<and> (map_of d ''offsets'' = Some (PList (x # xs)) \<longrightarrow>
        map_of d ''url'' = Some target \<longrightarrow> truthy target \<longrightarrow>
      receive_images rt (PDict d) w =
        andthen (download target) (\<lambda>bytes. lift (from_bytes rt bytes (PList (x # xs)))) w)
   \<and> (map_of d ''offsets'' = Some (PList (x # xs)) \<longrightarrow>
        (\<forall>target. map_of d ''url'' = Some target \<longrightarrow> \<not> truthy target) \<longrightarrow>
        map_of d ''base64'' = Some enc \<longrightarrow> truthy enc \<longrightarrow>
      receive_images rt (PDict d) w = lift (from_base64 rt enc (PList (x # xs))) w)"
proof (intro conjI impI)
  assume bad: "\<forall>x xs. map_of d ''offsets'' \<noteq> Some (PList (x # xs))"
  have "\<not> nonempty_list (case map_of d ''offsets'' of None \<Rightarrow> PNone | Some v \<Rightarrow> v)"
  proof (cases "map_of d ''offsets''")
    case None
    then show ?thesis by simp
  next
    case (Some v)
    with bad show ?thesis by (cases v rule: nonempty_list.cases) (auto simp: neq_Nil_conv)
  qed
  then show "receive_images rt (PDict d) w =
        (Raise (ValueError (''Could not read result images, invalid offsets: ''
                  @ py_str rt (case map_of d ''offsets'' of None \<Rightarrow> PNone | Some v \<Rightarrow> v))), w)"
    by (cases "map_of d ''offsets''") (simp_all add: receive_images_def raise_def)
next
  assume "map_of d ''offsets'' = Some (PList (x # xs))" "map_of d ''url'' = Some target" "truthy target"
  then show "receive_images rt (PDict d) w =
        andthen (download target) (\<lambda>bytes. lift (from_bytes rt bytes (PList (x # xs)))) w"
    by (simp add: receive_images_def)
next
  assume "map_of d ''offsets'' = Some (PList (x # xs))"
    "\<forall>target. map_of d ''url'' = Some target \<longrightarrow> \<not> truthy target"
    "map_of d ''base64'' = Some enc" "truthy enc"
  then show "receive_images rt (PDict d) w = lift (from_base64 rt enc (PList (x # xs))) w"
    by (cases "map_of d ''url''") (simp_all add: receive_images_def)
qed

theorem receive_images_requires_offsets_witness:
  "receive_images sample_runtime
     (PDict [(''url'', PStr ''https://store/result''), (''offsets'', PList [])]) sample_world
   = (Raise (ValueError ''Could not read result images, invalid offsets: <value>''), sample_world)
   \<and> receive_images sample_runtime (PDict [(''base64'', PStr ''aGk='')]) sample_world
   = (Raise (ValueError ''Could not read result images, invalid offsets: None''), sample_world)
   \<and> receive_images sample_runtime
       (PDict [(''url'', PStr ''https://store/result''), (''offsets'', PList [PInt 0])])
       (sample_world\<lparr>script := [Reply (PBytes [1, 2])]\<rparr>)
   = (Return ''images from bytes'',
      sample_world\<lparr>script := [], trace := [Download (PStr ''https://store/result'')]\<rparr>)
   \<and> receive_images sample_runtime
       (PDict [(''base64'', PStr ''aGk=''), (''offsets'', PList [PInt 0])]) sample_world
   = (Return ''images from base64'', sample_world)"
proof -
  note t = receive_images_requires_offsets [where rt = sample_runtime]
  have A: "receive_images sample_runtime
     (PDict [(''url'', PStr ''https://store/result''), (''offsets'', PList [])]) sample_world
   = (Raise (ValueError ''Could not read result images, invalid offsets: <value>''), sample_world)"
    using t [where d = "[(''url'', PStr ''https://store/result''), (''offsets'', PList [])]"
               and w = sample_world, THEN conjunct1]
    by (simp add: py_str_def sample_runtime_def)
  have B: "receive_images sample_runtime (PDict [(''base64'', PStr ''aGk='')]) sample_world
   = (Raise (ValueError ''Could not read result images, invalid offsets: None''), sample_world)"
    using t [where d = "[(''base64'', PStr ''aGk='')]" and w = sample_world, THEN conjunct1]
    by (simp add: py_str_def)
  have C: "receive_images sample_runtime
       (PDict [(''url'', PStr ''https://store/result''), (''offsets'', PList [PInt 0])])
       (sample_world\<lparr>script := [Reply (PBytes [1, 2])]\<rparr>)
   = (Return ''images from bytes'',
      sample_world\<lparr>script := [], trace := [Download (PStr ''https://store/result'')]\<rparr>)"
    using t [where d = "[(''url'', PStr ''https://store/result''), (''offsets'', PList [PInt 0])]"
               and w = "sample_world\<lparr>script := [Reply (PBytes [1, 2])]\<rparr>"
               and x = "PInt 0" and xs = "[]" and target = "PStr ''https://store/result''",
             THEN conjunct2, THEN conjunct1]
    by (simp add: download_def request_def andthen_def lift_def sample_runtime_def sample_world_def)
  have D: "receive_images sample_runtime
       (PDict [(''base64'', PStr ''aGk=''), (''offsets'', PList [PInt 0])]) sample_world
   = (Return ''images from base64'', sample_world)"
    using t [where d = "[(''base64'', PStr ''aGk=''), (''offsets'', PList [PInt 0])]"
               and w = sample_world and x = "PInt 0" and xs = "[]" and enc = "PStr ''aGk=''",
             THEN conjunct2, THEN conjunct2]
    by (simp add: lift_def sample_runtime_def)
  from A B C D show ?thesis by simp
qed

text \<open>
  C7. When the submission response carries user data (with integer credits \<open>r\<close> and
  an image count \<open>g\<close>) and the user has \<open>p\<close> credits, the cost is \<open>max 0 (p - r)\<close>
  and the shared user is overwritten: whatever \<open>_process_job\<close> does afterwards and
  however it ends, the client's user then holds credits \<open>r\<close> and image count \<open>g\<close>.
  When the response has no user data (the key is absent or its value is empty) the
  cost is 0, nothing is raised and the client's user is the one it was.
\<close>

theorem update_user_cost:
  "(map_of response ''user'' = Some (PDict reported) \<longrightarrow>
      map_of reported ''credits'' = Some (PInt r) \<longrightarrow>
      map_of reported ''images_generated'' = Some g \<longrightarrow>
      credits u = PInt p \<longrightarrow>
        ethen (py_get (PDict response) ''user'' PNone) (update_user rt u) =
          Inr (PInt (max 0 (p - r)), u\<lparr>images_generated := g, credits := PInt r\<rparr>)
      \<and> user (snd (track_job rt job u (PDict response) w)) =
          Some (u\<lparr>images_generated := g, credits := PInt r\<rparr>)
      \<and> (user w = Some u \<longrightarrow>
         send_images rt (to_dict rt (work job)) w = (Return inputs, sent) \<longrightarrow>
         script sent = Reply (PDict response) # rest \<longrightarrow>
         map_of response ''id'' = Some rid \<longrightarrow>
         map_of response ''worker_id'' = Some wid \<longrightarrow>
         user (snd (snd (process_job rt job w))) =
           Some (u\<lparr>images_generated := g, credits := PInt r\<rparr>)))
   \<and> (map_of response ''user'' = None \<or> (\<exists>v. map_of response ''user'' = Some v \<and> \<not> truthy v) \<longrightarrow>
        ethen (py_get (PDict response) ''user'' PNone) (update_user rt u) = Inr (PInt 0, u)
      \<and> (user w = Some u \<longrightarrow>
         user (snd (track_job rt job u (PDict response) w)) = user w)
      \<and> (user w = Some u \<longrightarrow>
         send_images rt (to_dict rt (work job)) w = (Return inputs, sent) \<longrightarrow>
         script sent = Reply (PDict response) # rest \<longrightarrow>
         map_of response ''id'' = Some rid \<longrightarrow>
         map_of response ''worker_id'' = Some wid \<longrightarrow>
         user (snd (snd (process_job rt job w))) = user w))"
proof (intro conjI impI)
  assume a: "map_of response ''user'' = Some (PDict reported)"
    "map_of reported ''credits'' = Some (PInt r)"
    "map_of reported ''images_generated'' = Some g"
    "credits u = PInt p"
  then have "reported \<noteq> []" by auto
  with a show c: "ethen (py_get (PDict response) ''user'' PNone) (update_user rt u) =
        Inr (PInt (max 0 (p - r)), u\<lparr>images_generated := g, credits := PInt r\<rparr>)"
    by (simp add: ethen_def update_user_def py_sub_def)
  from track_job_user [OF c]
  show "user (snd (track_job rt job u (PDict response) w)) =
          Some (u\<lparr>images_generated := g, credits := PInt r\<rparr>)" .
  assume "user w = Some u"
    "send_images rt (to_dict rt (work job)) w = (Return inputs, sent)"
    "script sent = Reply (PDict response) # rest"
    "map_of response ''id'' = Some rid"
    "map_of response ''worker_id'' = Some wid"
  then show "user (snd (snd (process_job rt job w))) =
           Some (u\<lparr>images_generated := g, credits := PInt r\<rparr>)"
    by (intro process_job_user [OF _ _ _ _ _ c]) simp_all
next
  assume "map_of response ''user'' = None \<or> (\<exists>v. map_of response ''user'' = Some v \<and> \<not> truthy v)"
  then show c: "ethen (py_get (PDict response) ''user'' PNone) (update_user rt u) = Inr (PInt 0, u)"
    by (auto simp: ethen_def update_user_def)
  assume u: "user w = Some u"
  from track_job_user [OF c] u
  show "user (snd (track_job rt job u (PDict response) w)) = user w" by simp
  assume "send_images rt (to_dict rt (work job)) w = (Return inputs, sent)"
    "script sent = Reply (PDict response) # rest"
    "map_of response ''id'' = Some rid"
    "map_of response ''worker_id'' = Some wid"
  with u have "user (snd (snd (process_job rt job w))) = Some u"
    by (intro process_job_user [OF _ _ _ _ _ c]) simp_all
  with u show "user (snd (snd (process_job rt job w))) = user w" by simp
qed

theorem update_user_cost_witness:
  "ethen (py_get (PDict [(''id'', PStr ''r-1''), (''worker_id'', PStr ''w-1''),
                         (''status'', PStr ''CANCELLED''),
                         (''user'', PDict [(''credits'', PInt 93), (''images_generated'', PInt 8)])])
            ''user'' PNone) (update_user sample_runtime sample_user)
   = Inr (PInt 7, sample_user\<lparr>images_generated := PInt 8, credits := PInt 93\<rparr>)
   \<and> user (snd (track_job sample_runtime sample_job sample_user
        (PDict [(''id'', PStr ''r-1''), (''worker_id'', PStr ''w-1''),
                (''status'', PStr ''CANCELLED''),
                (''user'', PDict [(''credits'', PInt 93), (''images_generated'', PInt 8)])])
        sample_world))
     = Some (sample_user\<lparr>images_generated := PInt 8, credits := PInt 93\<rparr>)
   \<and> user (snd (snd (process_job sample_runtime sample_job
        (sample_world\<lparr>script :=
           [Reply (PDict [(''id'', PStr ''r-1''), (''worker_id'', PStr ''w-1''),
                (''status'', PStr ''CANCELLED''),
                (''user'', PDict [(''credits'', PInt 93), (''images_generated'', PInt 8)])])]\<rparr>))))
     = Some (sample_user\<lparr>images_generated := PInt 8, credits := PInt 93\<rparr>)
   \<and> ethen (py_get (PDict [(''id'', PStr ''r-1''), (''worker_id'', PStr ''w-1''),
                         (''status'', PStr ''CANCELLED'')])
            ''user'' PNone) (update_user sample_runtime sample_user)
   = Inr (PInt 0, sample_user)
   \<and> user (snd (track_job sample_runtime sample_job sample_user
        (PDict [(''id'', PStr ''r-1''), (''worker_id'', PStr ''w-1''),
                (''status'', PStr ''CANCELLED'')])
        sample_world))
     = Some sample_user
   \<and> user (snd (snd (process_job sample_runtime sample_job
        (sample_world\<lparr>script :=
           [Reply (PDict [(''id'', PStr ''r-1''), (''worker_id'', PStr ''w-1''),
                (''status'', PStr ''CANCELLED'')])]\<rparr>))))
     = Some sample_user"
proof -
  have s: "send_images sample_runtime (to_dict sample_runtime (work sample_job)) v
           = (Return [(''batch_count'', PInt 1)], v)" for v :: "string world"
    by (simp add: send_images_def sample_runtime_def sample_job_def ret_def)
  show ?thesis
    using
      update_user_cost [where rt = sample_runtime and u = sample_user and job = sample_job
      and response = "[(''id'', PStr ''r-1''), (''worker_id'', PStr ''w-1''),
                (''status'', PStr ''CANCELLED''),
                (''user'', PDict [(''credits'', PInt 93), (''images_generated'', PInt 8)])]"
      and w = "sample_world" and p = 100 and r = 93 and g = "PInt 8"
      and reported = "[(''credits'', PInt 93), (''images_generated'', PInt 8)]",
      THEN conjunct1]
      update_user_cost [where rt = sample_runtime and u = sample_user and job = sample_job
      and response = "[(''id'', PStr ''r-1''), (''worker_id'', PStr ''w-1''),
                (''status'', PStr ''CANCELLED''),
                (''user'', PDict [(''credits'', PInt 93), (''images_generated'', PInt 8)])]"
      and w = "sample_world\<lparr>script := [Reply (PDict [(''id'', PStr ''r-1''), (''worker_id'', PStr ''w-1''),
                (''status'', PStr ''CANCELLED''),
                (''user'', PDict [(''credits'', PInt 93), (''images_generated'', PInt 8)])])]\<rparr>" and p = 100 and r = 93 and g = "PInt 8"
      and reported = "[(''credits'', PInt 93), (''images_generated'', PInt 8)]"
      and inputs = "[(''batch_count'', PInt 1)]" and sent = "sample_world\<lparr>script := [Reply (PDict [(''id'', PStr ''r-1''), (''worker_id'', PStr ''w-1''),
                (''status'', PStr ''CANCELLED''),
                (''user'', PDict [(''credits'', PInt 93), (''images_generated'', PInt 8)])])]\<rparr>"
      and rest = "[]" and rid = "PStr ''r-1''" and wid = "PStr ''w-1''",
      THEN conjunct1]
      update_user_cost [where rt = sample_runtime and u = sample_user and job = sample_job
      and response = "[(''id'', PStr ''r-1''), (''worker_id'', PStr ''w-1''),
                (''status'', PStr ''CANCELLED'')]"
      and w = "sample_world",
      THEN conjunct2]
      update_user_cost [where rt = sample_runtime and u = sample_user and job = sample_job
      and response = "[(''id'', PStr ''r-1''), (''worker_id'', PStr ''w-1''),
                (''status'', PStr ''CANCELLED'')]"
      and w = "sample_world\<lparr>script := [Reply (PDict [(''id'', PStr ''r-1''), (''worker_id'', PStr ''w-1''),
                (''status'', PStr ''CANCELLED'')])]\<rparr>"
      and inputs = "[(''batch_count'', PInt 1)]" and sent = "sample_world\<lparr>script := [Reply (PDict [(''id'', PStr ''r-1''), (''worker_id'', PStr ''w-1''),
                (''status'', PStr ''CANCELLED'')])]\<rparr>"
      and rest = "[]" and rid = "PStr ''r-1''" and wid = "PStr ''w-1''",
      THEN conjunct2]
    by (simp add: s sample_user_def sample_world_def)
qed

text \<open>
  C8. \<open>enqueue\<close> makes one draw of its own and returns it as the identifier; it
  appends one job with that identifier to the end of the queue; the job's batch count
  is 8 when more than 8 were requested and the requested count otherwise, and self
  attention guidance is off in its models, if it has any. When \<^verbatim>\<open>uuid4\<close> never
  repeats a value, the identifier differs from every one drawn before, and the jobs
  that any run of \<open>enqueue\<close> calls puts into a new queue have distinct identifiers.
\<close>

theorem enqueue_clamps_batch_count:
  "fst (enqueue uuid wk front s) = uuid (drawn s)
   \<and> drawn (snd (enqueue uuid wk front s)) = Suc (drawn s)
   \<and> (\<exists>job. queue (snd (enqueue uuid wk front s)) = queue s @ [job]
        \<and> local_id job = fst (enqueue uuid wk front s)
        \<and> remote_id job = PNone \<and> worker_id job = PNone
        \<and> batch_count (work job) = (if 8 < batch_count wk then 8 else batch_count wk)
        \<and> (case models (work job) of
              None \<Rightarrow> models wk = None
            | Some m \<Rightarrow> models wk \<noteq> None \<and> self_attention_guidance m = False))
   \<and> (inj uuid \<longrightarrow> (\<forall>k<drawn s. fst (enqueue uuid wk front s) \<noteq> uuid k))
   \<and> (inj uuid \<longrightarrow>
        distinct (map local_id (queue
          (fold (\<lambda>(a, b) t. snd (enqueue uuid a b t)) calls
             \<lparr>drawn = n, queue = []\<rparr>))))"
proof (intro conjI impI)
  show "\<exists>job. queue (snd (enqueue uuid wk front s)) = queue s @ [job]
        \<and> local_id job = fst (enqueue uuid wk front s)
        \<and> remote_id job = PNone \<and> worker_id job = PNone
        \<and> batch_count (work job) = (if 8 < batch_count wk then 8 else batch_count wk)
        \<and> (case models (work job) of
              None \<Rightarrow> models wk = None
            | Some m \<Rightarrow> models wk \<noteq> None \<and> self_attention_guidance m = False)"
    by (cases "models wk") (auto simp: enqueue_def Let_def)
next
  assume "inj uuid"
  then show "\<forall>k<drawn s. fst (enqueue uuid wk front s) \<noteq> uuid k"
    by (auto simp: enqueue_def Let_def dest: injD)
next
  assume i: "inj uuid"
  have "distinct (map uuid [n ..< n + length calls])"
    by (rule iffD2 [OF distinct_map]) (use i in \<open>simp add: inj_on_def inj_def\<close>)
  then show "distinct (map local_id (queue
          (fold (\<lambda>(a, b) t. snd (enqueue uuid a b t)) calls
             \<lparr>drawn = n, queue = []\<rparr>)))"
    by (simp add: enqueue_fold_ids [THEN conjunct1])
qed (simp_all add: enqueue_def Let_def)

theorem enqueue_clamps_batch_count_witness:
  "fst (enqueue sample_uuid4 \<lparr>batch_count = 12, models = Some \<lparr>self_attention_guidance = True\<rparr>\<rparr> False
         \<lparr>drawn = 1, queue = [\<lparr>local_id = ''id-'', work = \<lparr>batch_count = 1, models = None\<rparr>,
           remote_id = PNone, worker_id = PNone\<rparr>]\<rparr>) = ''id-i''
   \<and> snd (enqueue sample_uuid4 \<lparr>batch_count = 12, models = Some \<lparr>self_attention_guidance = True\<rparr>\<rparr> False
         \<lparr>drawn = 1, queue = [\<lparr>local_id = ''id-'', work = \<lparr>batch_count = 1, models = None\<rparr>,
           remote_id = PNone, worker_id = PNone\<rparr>]\<rparr>)
     = \<lparr>drawn = 2, queue =
         [\<lparr>local_id = ''id-'', work = \<lparr>batch_count = 1, models = None\<rparr>,
           remote_id = PNone, worker_id = PNone\<rparr>,
          \<lparr>local_id = ''id-i'',
           work = \<lparr>batch_count = 8, models = Some \<lparr>self_attention_guidance = False\<rparr>\<rparr>,
           remote_id = PNone, worker_id = PNone\<rparr>]\<rparr>
   \<and> fst (enqueue sample_uuid4 \<lparr>batch_count = 12, models = Some \<lparr>self_attention_guidance = True\<rparr>\<rparr> False
         \<lparr>drawn = 1, queue = [\<lparr>local_id = ''id-'', work = \<lparr>batch_count = 1, models = None\<rparr>,
           remote_id = PNone, worker_id = PNone\<rparr>]\<rparr>) \<noteq> sample_uuid4 0
   \<and> distinct (map local_id (queue
        (fold (\<lambda>(a, b) t. snd (enqueue sample_uuid4 a b t))
           [(\<lparr>batch_count = 12, models = Some \<lparr>self_attention_guidance = True\<rparr>\<rparr>, False),
            (\<lparr>batch_count = 2, models = None\<rparr>, True)]
           \<lparr>drawn = 0, queue = []\<rparr>)))"
proof -
  note t = enqueue_clamps_batch_count
    [where uuid = sample_uuid4
       and wk = "\<lparr>batch_count = 12, models = Some \<lparr>self_attention_guidance = True\<rparr>\<rparr>"
       and front = False
       and s = "\<lparr>drawn = 1, queue = [\<lparr>local_id = ''id-'', work = \<lparr>batch_count = 1, models = None\<rparr>,
           remote_id = PNone, worker_id = PNone\<rparr>]\<rparr>"
       and n = 0
       and calls = "[(\<lparr>batch_count = 12, models = Some \<lparr>self_attention_guidance = True\<rparr>\<rparr>, False),
            (\<lparr>batch_count = 2, models = None\<rparr>, True)]"]
  from t [THEN conjunct1]
  have A: "fst (enqueue sample_uuid4 \<lparr>batch_count = 12, models = Some \<lparr>self_attention_guidance = True\<rparr>\<rparr> False
         \<lparr>drawn = 1, queue = [\<lparr>local_id = ''id-'', work = \<lparr>batch_count = 1, models = None\<rparr>,
           remote_id = PNone, worker_id = PNone\<rparr>]\<rparr>) = ''id-i''"
    by (simp add: sample_uuid4_def)
  have B: "snd (enqueue sample_uuid4 \<lparr>batch_count = 12, models = Some \<lparr>self_attention_guidance = True\<rparr>\<rparr> False
         \<lparr>drawn = 1, queue = [\<lparr>local_id = ''id-'', work = \<lparr>batch_count = 1, models = None\<rparr>,
           remote_id = PNone, worker_id = PNone\<rparr>]\<rparr>)
     = \<lparr>drawn = 2, queue =
         [\<lparr>local_id = ''id-'', work = \<lparr>batch_count = 1, models = None\<rparr>,
           remote_id = PNone, worker_id = PNone\<rparr>,
          \<lparr>local_id = ''id-i'',
           work = \<lparr>batch_count = 8, models = Some \<lparr>self_attention_guidance = False\<rparr>\<rparr>,
           remote_id = PNone, worker_id = PNone\<rparr>]\<rparr>"
    by (simp add: enqueue_def sample_uuid4_def)
  from t [THEN conjunct2, THEN conjunct2, THEN conjunct2, THEN conjunct1]
  have C: "fst (enqueue sample_uuid4 \<lparr>batch_count = 12, models = Some \<lparr>self_attention_guidance = True\<rparr>\<rparr> False
         \<lparr>drawn = 1, queue = [\<lparr>local_id = ''id-'', work = \<lparr>batch_count = 1, models = None\<rparr>,
           remote_id = PNone, worker_id = PNone\<rparr>]\<rparr>) \<noteq> sample_uuid4 0"
    by (simp add: inj_sample_uuid4)
  from t [THEN conjunct2, THEN conjunct2, THEN conjunct2, THEN conjunct2]
  have D: "distinct (map local_id (queue
        (fold (\<lambda>(a, b) t. snd (enqueue sample_uuid4 a b t))
           [(\<lparr>batch_count = 12, models = Some \<lparr>self_attention_guidance = True\<rparr>\<rparr>, False),
            (\<lparr>batch_count = 2, models = None\<rparr>, True)]
           \<lparr>drawn = 0, queue = []\<rparr>)))"
    by (simp add: inj_sample_uuid4)
  from A B C D show ?thesis by simp
qed




text \<open>
  C5. For a \<open>FAILED\<close> response whose error field is the JSON text of an object with
  \<open>error_message\<close> \<open>x\<close> and \<open>error_traceback\<close> \<open>y\<close>, the error message yielded is
  \<open>x\<close>. For the error field \<open>boom\<close>, which the JSON parser rejects, the message is
  \<open>boom\<close> itself, and the resolution returns without an exception.
\<close>

theorem extract_error_message:
  \<open>(map_of response ''status'' = Some (PStr ''FAILED'') \<longrightarrow>
      map_of response ''error'' = Some (PStr ''{"error_message":"x","error_traceback":"y"}'') \<longrightarrow>
      json_loads rt (PStr ''{"error_message":"x","error_traceback":"y"}'') =
        Inr (PDict [(''error_message'', PStr ''x''), (''error_traceback'', PStr ''y'')]) \<longrightarrow>
      extract_error rt (PDict response) (remote_id job) = Inr (PStr ''x'', PStr ''y'')
      \<and> resolve_job rt job (PDict response) w =
          (Return (), w\<lparr>emitted := emitted w @
             [(ClientMessage ClientEvent_error (local_id job))\<lparr>error := PStr ''x''\<rparr>]\<rparr>))
   \<and> (map_of response ''status'' = Some (PStr ''FAILED'') \<longrightarrow>
      map_of response ''error'' = Some (PStr ''boom'') \<longrightarrow>
      json_loads rt (PStr ''boom'') = Inl exn \<longrightarrow>
      extract_error rt (PDict response) (remote_id job) = Inr (PStr ''boom'', PStr ''No traceback'')
      \<and> resolve_job rt job (PDict response) w =
          (Return (), w\<lparr>emitted := emitted w @
             [(ClientMessage ClientEvent_error (local_id job))\<lparr>error := PStr ''boom''\<rparr>]\<rparr>))\<close>
proof (intro conjI impI)
  assume a: \<open>map_of response ''status'' = Some (PStr ''FAILED'')\<close>
    \<open>map_of response ''error'' = Some (PStr ''{"error_message":"x","error_traceback":"y"}'')\<close>
    \<open>json_loads rt (PStr ''{"error_message":"x","error_traceback":"y"}'') =
        Inr (PDict [(''error_message'', PStr ''x''), (''error_traceback'', PStr ''y'')])\<close>
  then show x: "extract_error rt (PDict response) (remote_id job) = Inr (PStr ''x'', PStr ''y'')"
    by (simp add: extract_error_def ethen_def)
  from a(1) show "resolve_job rt job (PDict response) w =
          (Return (), w\<lparr>emitted := emitted w @
             [(ClientMessage ClientEvent_error (local_id job))\<lparr>error := PStr ''x''\<rparr>]\<rparr>)"
    by (simp add: resolve_job_def x yield_def)
next
  assume a: "map_of response ''status'' = Some (PStr ''FAILED'')"
    "map_of response ''error'' = Some (PStr ''boom'')"
    "json_loads rt (PStr ''boom'') = Inl exn"
  then show x: "extract_error rt (PDict response) (remote_id job) = Inr (PStr ''boom'', PStr ''No traceback'')"
    by (simp add: extract_error_def ethen_def py_str_def)
  from a(1) show "resolve_job rt job (PDict response) w =
          (Return (), w\<lparr>emitted := emitted w @
             [(ClientMessage ClientEvent_error (local_id job))\<lparr>error := PStr ''boom''\<rparr>]\<rparr>)"
    by (simp add: resolve_job_def x yield_def)
qed

theorem extract_error_message_witness:
  \<open>resolve_job sample_runtime sample_job
     (PDict [(''status'', PStr ''FAILED''),
             (''error'', PStr ''{"error_message":"x","error_traceback":"y"}'')]) sample_world
   = (Return (), sample_world\<lparr>emitted :=
        [(ClientMessage ClientEvent_error ''local-1'')\<lparr>error := PStr ''x''\<rparr>]\<rparr>)
   \<and> resolve_job sample_runtime sample_job
     (PDict [(''status'', PStr ''FAILED''), (''error'', PStr ''boom'')]) sample_world
   = (Return (), sample_world\<lparr>emitted :=
        [(ClientMessage ClientEvent_error ''local-1'')\<lparr>error := PStr ''boom''\<rparr>]\<rparr>)\<close>
proof -
  note t = extract_error_message [where rt = sample_runtime and w = sample_world and job = sample_job]
  have A: \<open>resolve_job sample_runtime sample_job
     (PDict [(''status'', PStr ''FAILED''),
             (''error'', PStr ''{"error_message":"x","error_traceback":"y"}'')]) sample_world
   = (Return (), sample_world\<lparr>emitted :=
        [(ClientMessage ClientEvent_error ''local-1'')\<lparr>error := PStr ''x''\<rparr>]\<rparr>)\<close>
    using t [where response = \<open>[(''status'', PStr ''FAILED''),
             (''error'', PStr ''{"error_message":"x","error_traceback":"y"}'')]\<close>, THEN conjunct1]
      read_json_error_object
    by (simp add: sample_runtime_def sample_world_def sample_job_def)
  have B: "resolve_job sample_runtime sample_job
     (PDict [(''status'', PStr ''FAILED''), (''error'', PStr ''boom'')]) sample_world
   = (Return (), sample_world\<lparr>emitted :=
        [(ClientMessage ClientEvent_error ''local-1'')\<lparr>error := PStr ''boom''\<rparr>]\<rparr>)"
    using t [where response = "[(''status'', PStr ''FAILED''), (''error'', PStr ''boom'')]"
               and exn = JSONDecodeError, THEN conjunct2]
      read_json_boom
    by (simp add: sample_runtime_def sample_world_def sample_job_def)
  from A B show ?thesis by simp
qed




text \<open>
  C3. When the processing of the job at the head of the queue raises a \<open>NetworkError\<close>,
  \<open>listen\<close> goes on with the rest of the queue: the error is turned into a text by
  \<open>_process_http_error\<close>, one error message with that text and the job's local
  identifier is yielded, the current job is reset, and the next job is taken. Before
  it raised, the job had yielded no error message, so this one is the only one.
\<close>

theorem listen_loop_network_error:
  "process_job rt job (w\<lparr>current_job := Some job\<rparr>) = (Raise (NetworkError ne), job', v) \<longrightarrow>
     listen_loop rt (job # rest) w =
       listen_loop rt rest
         ((snd (process_http_error rt ne (v\<lparr>current_job := Some job'\<rparr>)))
            \<lparr>current_job := None,
              emitted := emitted v @
                [(ClientMessage ClientEvent_error (local_id job))
                   \<lparr>error := PStr (fst (process_http_error rt ne (v\<lparr>current_job := Some job'\<rparr>)))\<rparr>]\<rparr>)
     \<and> (\<exists>ms. emitted v = emitted w @ ms \<and> (\<forall>m\<in>set ms. event m \<noteq> ClientEvent_error))"
proof (intro impI conjI)
  assume p: "process_job rt job (w\<lparr>current_job := Some job\<rparr>) = (Raise (NetworkError ne), job', v)"
  from process_job_local_id [of rt job "w\<lparr>current_job := Some job\<rparr>"] p
  have l: "local_id job' = local_id job" by simp
  have q: "emitted (snd (process_http_error rt ne s)) = emitted s" for s :: "'a world"
    by (simp add: process_http_error_def Let_def split: option.splits sum.splits)
  obtain msg s where h: "process_http_error rt ne (v\<lparr>current_job := Some job'\<rparr>) = (msg, s)"
    by (cases "process_http_error rt ne (v\<lparr>current_job := Some job'\<rparr>)")
  with q [of "v\<lparr>current_job := Some job'\<rparr>"] have "emitted s = emitted v" by simp
  with p l h show "listen_loop rt (job # rest) w =
       listen_loop rt rest
         ((snd (process_http_error rt ne (v\<lparr>current_job := Some job'\<rparr>)))
            \<lparr>current_job := None,
              emitted := emitted v @
                [(ClientMessage ClientEvent_error (local_id job))
                   \<lparr>error := PStr (fst (process_http_error rt ne (v\<lparr>current_job := Some job'\<rparr>)))\<rparr>]\<rparr>)"
    by (auto simp: on_exception_def yield_def intro!: arg_cong [where f = "listen_loop rt rest"])
  from process_job_no_error [of rt job "w\<lparr>current_job := Some job\<rparr>"] p
  show "\<exists>ms. emitted v = emitted w @ ms \<and> (\<forall>m\<in>set ms. event m \<noteq> ClientEvent_error)"
    by simp
qed

theorem listen_loop_network_error_witness:
  "process_job sample_runtime sample_job ((sample_world\<lparr>script :=
          [Reply (PDict [(''id'', PStr ''r-1''), (''worker_id'', PStr ''w-1''), (''status'', PStr ''IN_QUEUE'')]),
           Fail \<lparr>status = Some 503, message = ''Service Unavailable'', data = PNone\<rparr>,
           Reply (PDict [(''id'', PStr ''r-2''), (''worker_id'', PStr ''w-2''), (''status'', PStr ''CANCELLED'')])]\<rparr>)\<lparr>current_job := Some sample_job\<rparr>)
     = (Raise (NetworkError \<lparr>status = Some 503, message = ''Service Unavailable'', data = PNone\<rparr>), (sample_job\<lparr>remote_id := PStr ''r-1'', worker_id := PStr ''w-1''\<rparr>), (sample_world\<lparr>current_job := Some sample_job,
          script := [Reply (PDict [(''id'', PStr ''r-2''), (''worker_id'', PStr ''w-2''), (''status'', PStr ''CANCELLED'')])],
          trace := [Post ''https://api.interstice.cloud/generate''
                      (PDict [(''input'', PDict [(''workflow'', PDict [(''batch_count'', PInt 1)])])])
                      ''secret'',
                    Post ''https://api.interstice.cloud/status/w-1/r-1'' (PDict []) ''secret''],
          emitted := [(ClientMessage ClientEvent_progress ''local-1'')\<lparr>progress := PInt 0\<rparr>]\<rparr>))
   \<and> fst (listen_loop sample_runtime [sample_job, (sample_job\<lparr>local_id := ''local-2''\<rparr>)] (sample_world\<lparr>script :=
          [Reply (PDict [(''id'', PStr ''r-1''), (''worker_id'', PStr ''w-1''), (''status'', PStr ''IN_QUEUE'')]),
           Fail \<lparr>status = Some 503, message = ''Service Unavailable'', data = PNone\<rparr>,
           Reply (PDict [(''id'', PStr ''r-2''), (''worker_id'', PStr ''w-2''), (''status'', PStr ''CANCELLED'')])]\<rparr>)) = []
   \<and> emitted (snd (listen_loop sample_runtime [sample_job, (sample_job\<lparr>local_id := ''local-2''\<rparr>)] (sample_world\<lparr>script :=
          [Reply (PDict [(''id'', PStr ''r-1''), (''worker_id'', PStr ''w-1''), (''status'', PStr ''IN_QUEUE'')]),
           Fail \<lparr>status = Some 503, message = ''Service Unavailable'', data = PNone\<rparr>,
           Reply (PDict [(''id'', PStr ''r-2''), (''worker_id'', PStr ''w-2''), (''status'', PStr ''CANCELLED'')])]\<rparr>))) =
       [(ClientMessage ClientEvent_progress ''local-1'')\<lparr>progress := PInt 0\<rparr>,
        (ClientMessage ClientEvent_error ''local-1'')\<lparr>error := PStr ''Service Unavailable''\<rparr>,
        (ClientMessage ClientEvent_progress ''local-2'')\<lparr>progress := PInt 0\<rparr>,
        ClientMessage ClientEvent_interrupted ''local-2'']"
proof -
  have P: "process_job sample_runtime sample_job ((sample_world\<lparr>script :=
          [Reply (PDict [(''id'', PStr ''r-1''), (''worker_id'', PStr ''w-1''), (''status'', PStr ''IN_QUEUE'')]),
           Fail \<lparr>status = Some 503, message = ''Service Unavailable'', data = PNone\<rparr>,
           Reply (PDict [(''id'', PStr ''r-2''), (''worker_id'', PStr ''w-2''), (''status'', PStr ''CANCELLED'')])]\<rparr>)\<lparr>current_job := Some sample_job\<rparr>)
     = (Raise (NetworkError \<lparr>status = Some 503, message = ''Service Unavailable'', data = PNone\<rparr>), (sample_job\<lparr>remote_id := PStr ''r-1'', worker_id := PStr ''w-1''\<rparr>), (sample_world\<lparr>current_job := Some sample_job,
          script := [Reply (PDict [(''id'', PStr ''r-2''), (''worker_id'', PStr ''w-2''), (''status'', PStr ''CANCELLED'')])],
          trace := [Post ''https://api.interstice.cloud/generate''
                      (PDict [(''input'', PDict [(''workflow'', PDict [(''batch_count'', PInt 1)])])])
                      ''secret'',
                    Post ''https://api.interstice.cloud/status/w-1/r-1'' (PDict []) ''secret''],
          emitted := [(ClientMessage ClientEvent_progress ''local-1'')\<lparr>progress := PInt 0\<rparr>]\<rparr>))"
    by (simp add: process_job_def track_job_def send_images_def sample_runtime_def sample_job_def
        sample_world_def sample_user_def ret_def post_def request_def update_user_def set_user_def
        yield_def andthen_def lift_def poll_event_def ethen_def sleep_def yield_all_def
        resolve_job_def py_str_def Let_def)
  note T = listen_loop_network_error [where rt = sample_runtime and job = sample_job
      and w = "(sample_world\<lparr>script :=
          [Reply (PDict [(''id'', PStr ''r-1''), (''worker_id'', PStr ''w-1''), (''status'', PStr ''IN_QUEUE'')]),
           Fail \<lparr>status = Some 503, message = ''Service Unavailable'', data = PNone\<rparr>,
           Reply (PDict [(''id'', PStr ''r-2''), (''worker_id'', PStr ''w-2''), (''status'', PStr ''CANCELLED'')])]\<rparr>)" and ne = "\<lparr>status = Some 503, message = ''Service Unavailable'', data = PNone\<rparr>" and job' = "(sample_job\<lparr>remote_id := PStr ''r-1'', worker_id := PStr ''w-1''\<rparr>)" and v = "(sample_world\<lparr>current_job := Some sample_job,
          script := [Reply (PDict [(''id'', PStr ''r-2''), (''worker_id'', PStr ''w-2''), (''status'', PStr ''CANCELLED'')])],
          trace := [Post ''https://api.interstice.cloud/generate''
                      (PDict [(''input'', PDict [(''workflow'', PDict [(''batch_count'', PInt 1)])])])
                      ''secret'',
                    Post ''https://api.interstice.cloud/status/w-1/r-1'' (PDict []) ''secret''],
          emitted := [(ClientMessage ClientEvent_progress ''local-1'')\<lparr>progress := PInt 0\<rparr>]\<rparr>)"
      and rest = "[(sample_job\<lparr>local_id := ''local-2''\<rparr>)]", THEN mp, OF P, THEN conjunct1]
  have R: "listen_loop sample_runtime [sample_job, (sample_job\<lparr>local_id := ''local-2''\<rparr>)] (sample_world\<lparr>script :=
          [Reply (PDict [(''id'', PStr ''r-1''), (''worker_id'', PStr ''w-1''), (''status'', PStr ''IN_QUEUE'')]),
           Fail \<lparr>status = Some 503, message = ''Service Unavailable'', data = PNone\<rparr>,
           Reply (PDict [(''id'', PStr ''r-2''), (''worker_id'', PStr ''w-2''), (''status'', PStr ''CANCELLED'')])]\<rparr>)
      = ([], sample_world\<lparr>script := [],
          trace := [Post ''https://api.interstice.cloud/generate''
                      (PDict [(''input'', PDict [(''workflow'', PDict [(''batch_count'', PInt 1)])])])
                      ''secret'',
                    Post ''https://api.interstice.cloud/status/w-1/r-1'' (PDict []) ''secret'',
                    Post ''https://api.interstice.cloud/generate''
                      (PDict [(''input'', PDict [(''workflow'', PDict [(''batch_count'', PInt 1)])])])
                      ''secret''],
          emitted := [(ClientMessage ClientEvent_progress ''local-1'')\<lparr>progress := PInt 0\<rparr>,
        (ClientMessage ClientEvent_error ''local-1'')\<lparr>error := PStr ''Service Unavailable''\<rparr>,
        (ClientMessage ClientEvent_progress ''local-2'')\<lparr>progress := PInt 0\<rparr>,
        ClientMessage ClientEvent_interrupted ''local-2'']\<rparr>)"
    by (subst T) (simp add: process_http_error_def process_job_def track_job_def send_images_def sample_runtime_def sample_job_def
        sample_world_def sample_user_def ret_def post_def request_def update_user_def set_user_def
        yield_def andthen_def lift_def poll_event_def ethen_def sleep_def yield_all_def
        resolve_job_def py_str_def Let_def)
  from P R show ?thesis by simp
qed

end
